theory Spec2Isabelle
  imports Main "HOL-Library.Word"
begin

section \<open>The runtimeconfigurator watcher and the MySQL URL multiplexer\<close>

text \<open>
  A shallow embedding of two Go source files: the \<^verbatim>\<open>runtimeconfigurator\<close> package
  (the polling watcher of a remote configuration variable) and the \<^verbatim>\<open>mysql\<close> package
  (a URL opener multiplexer). Go values are modelled as follows:
  \<^item> \<^verbatim>\<open>[]byte\<close> is a list of 8-bit words; a nil slice and an empty slice are both \<open>[]\<close>
    (the source only takes their length and indexes them);
  \<^item> \<^verbatim>\<open>time.Time\<close> is an instant, an integer count of nanoseconds since the Unix epoch;
    a change of location such as \<^verbatim>\<open>UTC()\<close> keeps the instant;
  \<^item> \<^verbatim>\<open>time.Duration\<close> is an \<^verbatim>\<open>int64\<close> count of nanoseconds: an integer, with the
    wrap-around of \<^verbatim>\<open>int64\<close> arithmetic written out by \<open>wrap64\<close>;
  \<^item> a Go \<^verbatim>\<open>(value, error)\<close> pair is a sum, \<open>Inl\<close> the error.
\<close>

subsection \<open>Byte comparison\<close>

type_synonym byte = "8 word"

text \<open>
  \<^verbatim>\<open>
  func bytesNotEqual(a []byte, b []byte) bool {
      n := len(a)
      if n != len(b) { return true }
      for i := 0; i < n; i++ {
          if a[i] != b[i] { return true }
      }
      return false
  }
  \<close>
  The loop is the recursive function \<open>bytesNotEqual_loop\<close>, from index \<open>i\<close> up to \<open>n\<close>.
  It is entered with \<open>n = len(a) = len(b)\<close> only, so the guard \<open>i < n\<close> keeps both index
  expressions in range.
\<close>

function bytesNotEqual_loop :: "byte list \<Rightarrow> byte list \<Rightarrow> nat \<Rightarrow> nat \<Rightarrow> bool" where
  "bytesNotEqual_loop a b n i =
     (if i < n then
        (if a ! i \<noteq> b ! i then True else bytesNotEqual_loop a b n (i + 1))
      else False)"
  by pat_completeness auto
termination
  by (relation "measure (\<lambda>(a, b, n, i). n - i)") auto

definition bytesNotEqual :: "byte list \<Rightarrow> byte list \<Rightarrow> bool" where
  "bytesNotEqual a b =
     (let n = length a in
      if n \<noteq> length b then True else bytesNotEqual_loop a b n 0)"

text \<open>
  The number of times the comparison \<^verbatim>\<open>a[i] != b[i]\<close> is evaluated: the same recursion as
  \<open>bytesNotEqual_loop\<close>, counting one for every pass through the loop body.
\<close>

function T_bytesNotEqual_loop :: "byte list \<Rightarrow> byte list \<Rightarrow> nat \<Rightarrow> nat \<Rightarrow> nat" where
  "T_bytesNotEqual_loop a b n i =
     (if i < n then
        (if a ! i \<noteq> b ! i then 1 else 1 + T_bytesNotEqual_loop a b n (i + 1))
      else 0)"
  by pat_completeness auto
termination
  by (relation "measure (\<lambda>(a, b, n, i). n - i)") auto

definition T_bytesNotEqual :: "byte list \<Rightarrow> byte list \<Rightarrow> nat" where
  "T_bytesNotEqual a b =
     (let n = length a in
      if n \<noteq> length b then 0 else T_bytesNotEqual_loop a b n 0)"

subsection \<open>Time\<close>

type_synonym time = int
type_synonym duration = int

definition minDuration :: duration where
  "minDuration = - (2 ^ 63)"

definition maxDuration :: duration where
  "maxDuration = 2 ^ 63 - 1"

text \<open>The value an \<^verbatim>\<open>int64\<close> holds after an arithmetic operation whose exact result is \<open>x\<close>.\<close>

definition wrap64 :: "int \<Rightarrow> int" where
  "wrap64 x = (x + 2 ^ 63) mod 2 ^ 64 - 2 ^ 63"

text \<open>
  The standard library's \<^verbatim>\<open>Time.Add\<close> and \<^verbatim>\<open>Time.Sub\<close> on instants. The library
  documents that \<^verbatim>\<open>t.Sub(u)\<close> returns the maximum (or minimum) duration when the difference
  does not fit a \<^verbatim>\<open>Duration\<close>.
\<close>

definition Add :: "time \<Rightarrow> duration \<Rightarrow> time" where
  "Add t d = t + d"

definition Sub :: "time \<Rightarrow> time \<Rightarrow> duration" where
  "Sub t u =
     (let d = t - u in
      if d > maxDuration then maxDuration
      else if d < minDuration then minDuration
      else d)"

text \<open>\<^verbatim>\<open>time.Minute\<close> in nanoseconds, and \<^verbatim>\<open>defaultWaitTimeout = 10 * time.Minute\<close>.\<close>

definition Minute :: duration where
  "Minute = 60 * 1000000000"

definition defaultWaitTimeout :: duration where
  "defaultWaitTimeout = 10 * Minute"

text \<open>The zero value \<^verbatim>\<open>time.Time{}\<close>: January 1 of year 1, 00:00 UTC.\<close>

definition zeroTime :: time where
  "zeroTime = - 62135596800 * 1000000000"

subsection \<open>Messages of the remote service\<close>

text \<open>
  \<^verbatim>\<open>pb.Variable\<close>: the name, the contents (a oneof of a binary value and a text, possibly
  unset) and the update time, a pointer to a protobuf timestamp (\<open>None\<close> when nil). The
  text is a Go string, a sequence of bytes.
\<close>

datatype contents = Variable_Value "byte list" | Variable_Text "byte list" | NoContents

record timestamp =
  Seconds :: int
  Nanos :: int

record pb_Variable =
  pb_Name :: string
  pb_Contents :: contents
  pb_UpdateTime :: "timestamp option"

text \<open>
  \<^verbatim>\<open>
  func bytesFromProto(vpb *pb.Variable) []byte {
      if _, isBytes := vpb.GetContents().(*pb.Variable_Value); isBytes {
          return vpb.GetValue()
      }
      return []byte(vpb.GetText())
  }
  \<close>
  \<^verbatim>\<open>GetText\<close> returns the empty string when the contents are not a text.
\<close>

definition bytesFromProto :: "pb_Variable \<Rightarrow> byte list" where
  "bytesFromProto vpb =
     (case pb_Contents vpb of
        Variable_Value v \<Rightarrow> v
      | Variable_Text t \<Rightarrow> t
      | NoContents \<Rightarrow> [])"

text \<open>
  The protobuf library's \<^verbatim>\<open>ptypes.Timestamp\<close>: it refuses a nil timestamp, seconds before
  year 1 or from year 10000 on, and nanoseconds outside \<open>[0, 1e9)\<close>; otherwise it returns
  \<^verbatim>\<open>time.Unix(seconds, nanos).UTC()\<close>.
\<close>

datatype timestamp_error = NilTimestamp | BeforeYear1 | AfterYear10000 | NanosOutOfRange

definition minValidSeconds :: int where
  "minValidSeconds = - 62135596800"

definition maxValidSeconds :: int where
  "maxValidSeconds = 253402300800"

definition Unix :: "int \<Rightarrow> int \<Rightarrow> time" where
  "Unix sec nsec = sec * 1000000000 + nsec"

definition ptypes_Timestamp :: "timestamp option \<Rightarrow> timestamp_error + time" where
  "ptypes_Timestamp ts =
     (case ts of
        None \<Rightarrow> Inl NilTimestamp
      | Some t \<Rightarrow>
          if Seconds t < minValidSeconds then Inl BeforeYear1
          else if Seconds t \<ge> maxValidSeconds then Inl AfterYear10000
          else if Nanos t < 0 \<or> Nanos t \<ge> 1000000000 then Inl NanosOutOfRange
          else Inr (Unix (Seconds t) (Nanos t)))"

subsection \<open>Errors\<close>

text \<open>
  gRPC status codes, and the errors an RPC returns: an error that carries a gRPC status, or
  any other error, for which \<^verbatim>\<open>status.FromError\<close> reports \<^verbatim>\<open>ok = false\<close> with code
  \<^verbatim>\<open>Unknown\<close>.
\<close>

datatype code =
  OK | Canceled | Unknown | InvalidArgument | DeadlineExceeded | NotFound | AlreadyExists
  | PermissionDenied | ResourceExhausted | FailedPrecondition | Aborted | OutOfRange
  | Unimplemented | Internal | Unavailable | DataLoss | Unauthenticated

datatype rpc_error = StatusError code string | PlainError string

fun FromError :: "rpc_error \<Rightarrow> code \<times> bool" where
  "FromError (StatusError c msg) = (c, True)"
| "FromError (PlainError msg) = (Unknown, False)"

text \<open>\<^verbatim>\<open>ctx.Err()\<close> once the context is done.\<close>

datatype context_error = ContextCanceled | ContextDeadlineExceeded

text \<open>
  The errors the package returns: the context's error, the error of \<open>parseUpdateTime\<close>
  (\<^verbatim>\<open>"variable message for name=%q contains invalid timestamp: %v"\<close>), the decoder's error,
  the RPC's error, and the error of \<open>NewVariable\<close>
  (\<^verbatim>\<open>"cannot have negative WaitTime option value: %v"\<close>).
\<close>

datatype error =
  ContextError context_error
  | InvalidTimestamp string timestamp_error
  | DecodeError string
  | RPCError rpc_error
  | NegativeWaitTime duration

text \<open>
  \<^verbatim>\<open>
  func parseUpdateTime(vpb *pb.Variable) (time.Time, error) {
      updateTime, err := ptypes.Timestamp(vpb.GetUpdateTime())
      if err != nil {
          return time.Time{}, fmt.Errorf(
              "variable message for name=%q contains invalid timestamp: %v", vpb.Name, err)
      }
      return updateTime, nil
  }
  \<close>
\<close>

definition parseUpdateTime :: "pb_Variable \<Rightarrow> error + time" where
  "parseUpdateTime vpb =
     (case ptypes_Timestamp (pb_UpdateTime vpb) of
        Inl err \<Rightarrow> Inl (InvalidTimestamp (pb_Name vpb) err)
      | Inr updateTime \<Rightarrow> Inr updateTime)"

subsection \<open>The watcher\<close>

text \<open>
  \<^verbatim>\<open>
  type watcher struct {
      client      pb.RuntimeConfigManagerClient
      waitTime    time.Duration
      lastRPCTime time.Time
      name        string
      decoder     *runtimevar.Decoder
      bytes       []byte
      isDeleted   bool
      updateTime  time.Time
  }
  \<close>
  The decoder is the function of its \<^verbatim>\<open>Decode\<close> method, from the bytes to a value of the
  target type or an error. The client is the remote service: what it answers is not in the
  watcher but in the environment of each call, see \<open>poll\<close> below.
\<close>

record 'v watcher =
  waitTime :: duration
  lastRPCTime :: time
  name :: string
  decoder :: "byte list \<Rightarrow> string + 'v"
  bytes :: "byte list"
  isDeleted :: bool
  updateTime :: time

text \<open>\<^verbatim>\<open>driver.Variable\<close>, what \<open>Watch\<close> returns on a change.\<close>

record 'v driver_Variable =
  Value :: 'v
  UpdateTime :: time

text \<open>
  What the environment decides in one pass through the loop of \<open>Watch\<close>:
  \<^item> \<open>timerNow\<close>: the clock read by \<^verbatim>\<open>time.Now()\<close> when the timer is created;
  \<^item> \<open>ctxDone\<close>: \<open>Some e\<close> when the \<^verbatim>\<open>select\<close> takes the branch of \<^verbatim>\<open>ctx.Done()\<close>, with
    \<open>e\<close> the value of \<^verbatim>\<open>ctx.Err()\<close>; \<open>None\<close> when it takes the timer's branch;
  \<^item> \<open>getVariable\<close>: the answer of the \<^verbatim>\<open>GetVariable\<close> RPC to a request for a name;
  \<^item> \<open>rpcNow\<close>: the clock read after the RPC;
  \<^item> \<open>deleteNow\<close>: the clock read when a deletion is recorded.
\<close>

record poll =
  timerNow :: time
  ctxDone :: "context_error option"
  getVariable :: "string \<Rightarrow> rpc_error + pb_Variable"
  rpcNow :: time
  deleteNow :: time

text \<open>
  The outcome of a call of \<open>Watch\<close>: the watcher as the call leaves it, the durations of the
  timers it created, in order, and what it returned; \<open>None\<close> when the call has not returned
  after the passes the environment describes (it is waiting in its loop).
\<close>

record 'v outcome =
  state :: "'v watcher"
  timers :: "duration list"
  returned :: "(error + 'v driver_Variable) option"

text \<open>
  \<^verbatim>\<open>
  func (w *watcher) Watch(ctx context.Context) (driver.Variable, error) {
      zeroVar := driver.Variable{}
      for {
          t := time.NewTimer(w.waitTime - time.Now().Sub(w.lastRPCTime))
          select {
          case <-t.C:
          case <-ctx.Done():
              t.Stop()
              return zeroVar, ctx.Err()
          }
          vpb, err := w.client.GetVariable(ctx, &pb.GetVariableRequest{Name: w.name})
          w.lastRPCTime = time.Now()
          if err == nil {
              updateTime, err := parseUpdateTime(vpb)
              if err != nil {
                  return zeroVar, err
              }
              bytes := bytesFromProto(vpb)
              if w.isDeleted || bytesNotEqual(w.bytes, bytes) {
                  w.bytes = bytes
                  w.updateTime = updateTime
                  w.isDeleted = false
                  val, err := w.decoder.Decode(bytes)
                  if err != nil {
                      return zeroVar, err
                  }
                  return driver.Variable{Value: val, UpdateTime: updateTime}, nil
              }
          } else {
              if st, ok := status.FromError(err); !ok || st.Code() != codes.NotFound {
                  return zeroVar, err
              }
              if !w.isDeleted {
                  w.isDeleted = true
                  w.updateTime = time.Now().UTC()
                  return zeroVar, err
              }
          }
      }
  }
  \<close>
  One pass of the loop consumes one \<open>poll\<close>; the loop is the recursion on the list of polls.
\<close>

fun Watch :: "'v watcher \<Rightarrow> poll list \<Rightarrow> 'v outcome" where
  "Watch w [] = \<lparr>state = w, timers = [], returned = None\<rparr>"
| "Watch w (p # ps) =
     (let t = wrap64 (waitTime w - Sub (timerNow p) (lastRPCTime w)) in
      case ctxDone p of
        Some e \<Rightarrow> \<lparr>state = w, timers = [t], returned = Some (Inl (ContextError e))\<rparr>
      | None \<Rightarrow>
          let w1 = w\<lparr>lastRPCTime := rpcNow p\<rparr> in
          (case getVariable p (name w) of
             Inr vpb \<Rightarrow>
               (case parseUpdateTime vpb of
                  Inl err \<Rightarrow> \<lparr>state = w1, timers = [t], returned = Some (Inl err)\<rparr>
                | Inr updateTime' \<Rightarrow>
                    let bytes' = bytesFromProto vpb in
                    if isDeleted w1 \<or> bytesNotEqual (bytes w1) bytes' then
                      let w2 = w1\<lparr>bytes := bytes', updateTime := updateTime',
                                  isDeleted := False\<rparr> in
                      (case decoder w2 bytes' of
                         Inl err \<Rightarrow>
                           \<lparr>state = w2, timers = [t], returned = Some (Inl (DecodeError err))\<rparr>
                       | Inr val \<Rightarrow>
                           \<lparr>state = w2, timers = [t],
                            returned = Some (Inr \<lparr>Value = val, UpdateTime = updateTime'\<rparr>)\<rparr>)
                    else
                      (let r = Watch w1 ps in r\<lparr>timers := t # timers r\<rparr>))
           | Inl err \<Rightarrow>
               (case FromError err of
                  (st, ok) \<Rightarrow>
                    if \<not> ok \<or> st \<noteq> NotFound then
                      \<lparr>state = w1, timers = [t], returned = Some (Inl (RPCError err))\<rparr>
                    else if \<not> isDeleted w1 then
                      \<lparr>state = w1\<lparr>isDeleted := True, updateTime := deleteNow p\<rparr>,
                       timers = [t], returned = Some (Inl (RPCError err))\<rparr>
                    else
                      (let r = Watch w1 ps in r\<lparr>timers := t # timers r\<rparr>))))"

subsection \<open>Construction\<close>

text \<open>
  \<^verbatim>\<open>
  func (r ResourceName) String() string {
      return fmt.Sprintf("projects/%s/configs/%s/variables/%s", r.ProjectID, r.Config, r.Variable)
  }
  \<close>
\<close>

record ResourceName =
  ProjectID :: string
  Config :: string
  Variable :: string

definition String :: "ResourceName \<Rightarrow> string" where
  "String r = ''projects/'' @ ProjectID r @ ''/configs/'' @ Config r @ ''/variables/'' @ Variable r"

text \<open>
  \<^verbatim>\<open>WatchOptions\<close>: the wait time and the decode function, \<open>None\<close> when it is nil. A decode
  function is taken with the target type already applied to it, as the decoder that
  \<^verbatim>\<open>runtimevar.NewDecoder(targetType, decodeFn)\<close> builds applies it.
\<close>

record 'v WatchOptions =
  WaitTime :: duration
  Decode :: "(byte list \<Rightarrow> string + 'v) option"

text \<open>
  \<^verbatim>\<open>
  func (c *Client) NewVariable(ctx context.Context, name ResourceName, targetType interface{},
      opts *WatchOptions) (*runtimevar.Variable, error) {
      if opts == nil {
          opts = &WatchOptions{}
      }
      waitTime := opts.WaitTime
      switch {
      case waitTime == 0:
          waitTime = defaultWaitTimeout
      case waitTime < 0:
          return nil, fmt.Errorf("cannot have negative WaitTime option value: %v", waitTime)
      }
      decodeFn := runtimevar.JSONDecode
      if opts.Decode != nil {
          decodeFn = opts.Decode
      }
      decoder := runtimevar.NewDecoder(targetType, decodeFn)
      return runtimevar.New(&watcher{
          client:      c.client,
          waitTime:    waitTime,
          lastRPCTime: time.Now().Add(-1 * waitTime),
          name:        name.String(),
          decoder:     decoder,
      }), nil
  }
  \<close>
  The parameters \<open>now\<close> and \<open>JSONDecode\<close> are the clock read by \<^verbatim>\<open>time.Now()\<close> and the
  default decode function of the \<^verbatim>\<open>runtimevar\<close> package. The result is the watcher that
  \<^verbatim>\<open>runtimevar.New\<close> wraps; the fields the struct literal leaves out hold their zero values.
\<close>

definition NewVariable ::
  "time \<Rightarrow> (byte list \<Rightarrow> string + 'v) \<Rightarrow> ResourceName \<Rightarrow> 'v WatchOptions option
    \<Rightarrow> error + 'v watcher" where
  "NewVariable now JSONDecode rname opts0 =
     (let opts = (case opts0 of None \<Rightarrow> \<lparr>WaitTime = 0, Decode = None\<rparr> | Some opts \<Rightarrow> opts) in
      case (if WaitTime opts = 0 then Inr defaultWaitTimeout
            else if WaitTime opts < 0 then Inl (NegativeWaitTime (WaitTime opts))
            else Inr (WaitTime opts)) of
        Inl err \<Rightarrow> Inl err
      | Inr waitTime' \<Rightarrow>
          let decodeFn = (case Decode opts of None \<Rightarrow> JSONDecode | Some f \<Rightarrow> f) in
          Inr \<lparr>waitTime = waitTime',
               lastRPCTime = Add now (wrap64 (- 1 * waitTime')),
               name = String rname,
               decoder = decodeFn,
               bytes = [],
               isDeleted = False,
               updateTime = zeroTime\<rparr>)"

subsection \<open>The MySQL URL multiplexer\<close>

text \<open>
  A URL with its scheme and the rest of its fields; an opener, the function of its
  \<^verbatim>\<open>OpenMySQLURL\<close> method, which returns a database handle or an error, or panics; the
  multiplexer, whose map of schemes holds interface values (\<open>None\<close> for a nil interface).
  A nil map and an empty map answer a lookup alike, with the zero value.
\<close>

record URL =
  Scheme :: string
  Opaque :: string
  Host :: string
  Path :: string
  RawQuery :: string

datatype mysql_error = NoScheme URL | NoProvider URL string | OpenerError string

datatype 'a go_result = Panic | Return 'a

type_synonym ('ctx, 'db) MySQLURLOpener = "'ctx \<Rightarrow> URL \<Rightarrow> (mysql_error + 'db) go_result"

record ('ctx, 'db) URLMux =
  schemes :: "string \<Rightarrow> ('ctx, 'db) MySQLURLOpener option option"

text \<open>
  \<^verbatim>\<open>
  func (mux *URLMux) OpenMySQLURL(ctx context.Context, u *url.URL) (*sql.DB, error) {
      if u.Scheme == "" {
          return nil, fmt.Errorf("open connection %q: no scheme in URL", u)
      }
      var opener MySQLURLOpener
      if mux != nil {
          opener = mux.schemes[u.Scheme]
      }
      if opener == nil {
          return nil, fmt.Errorf("open connection %q: no provider registered for %s", u, u.Scheme)
      }
      return opener.OpenMySQLURL(ctx, u)
  }
  \<close>
  Both pointers can be nil: the receiver is tested, the URL is dereferenced at once.
\<close>

definition OpenMySQLURL ::
  "('ctx, 'db) URLMux option \<Rightarrow> 'ctx \<Rightarrow> URL option \<Rightarrow> (mysql_error + 'db) go_result" where
  "OpenMySQLURL mux ctx u0 =
     (case u0 of
        None \<Rightarrow> Panic
      | Some u \<Rightarrow>
          if Scheme u = [] then Return (Inl (NoScheme u))
          else
            let opener =
              (case mux of
                 None \<Rightarrow> None
               | Some m \<Rightarrow> (case schemes m (Scheme u) of None \<Rightarrow> None | Some f \<Rightarrow> f))
            in case opener of
                 None \<Rightarrow> Return (Inl (NoProvider u (Scheme u)))
               | Some f \<Rightarrow> f ctx u)"

subsection \<open>Example inputs\<close>

text \<open>
  Concrete inputs on which the theorems below are instantiated: a decoder that refuses
  contents shorter than two bytes, the watcher that \<open>NewVariable\<close> builds at time \<open>0\<close> with
  no options, a variable message, and a pass of the loop in which the context is not done
  and the RPC answers \<open>r\<close>.
\<close>

definition ex_decode :: "byte list \<Rightarrow> string + nat" where
  "ex_decode bs = (if length bs < 2 then Inl ''short'' else Inr (length bs))"

definition ex_watcher :: "nat watcher" where
  "ex_watcher =
     \<lparr>waitTime = 600000000000, lastRPCTime = - 600000000000,
      name = ''projects/p/configs/c/variables/v'', decoder = ex_decode,
      bytes = [], isDeleted = False, updateTime = zeroTime\<rparr>"

definition ex_var :: "byte list \<Rightarrow> timestamp option \<Rightarrow> pb_Variable" where
  "ex_var bs ts =
     \<lparr>pb_Name = ''projects/p/configs/c/variables/v'', pb_Contents = Variable_Value bs,
      pb_UpdateTime = ts\<rparr>"

definition ex_poll :: "rpc_error + pb_Variable \<Rightarrow> poll" where
  "ex_poll r = \<lparr>timerNow = 5, ctxDone = None, getVariable = (\<lambda>n. r), rpcNow = 6, deleteNow = 7\<rparr>"

text \<open>
  A URL with a given scheme, an opener that returns the host and path as its handle, and a
  multiplexer with that opener registered for \<^verbatim>\<open>mysql\<close> and a nil opener for \<^verbatim>\<open>nil\<close>.
\<close>

definition ex_url :: "string \<Rightarrow> URL" where
  "ex_url s = \<lparr>Scheme = s, Opaque = [], Host = ''db.example.com'', Path = ''/test'', RawQuery = []\<rparr>"

definition ex_opener :: "(unit, string) MySQLURLOpener" where
  "ex_opener ctx u = Return (Inr (Host u @ Path u))"

definition ex_mux :: "(unit, string) URLMux" where
  "ex_mux = \<lparr>schemes = [''mysql'' \<mapsto> Some ex_opener, ''nil'' \<mapsto> None]\<rparr>"

declare bytesNotEqual_loop.simps [simp del]
declare T_bytesNotEqual_loop.simps [simp del]
declare Watch.simps(2) [simp del]

section \<open>Properties\<close>

subsection \<open>Properties of the byte comparison\<close>

lemma bytesNotEqual_loop_iff:
  "bytesNotEqual_loop a b n i \<longleftrightarrow> (\<exists>j. i \<le> j \<and> j < n \<and> a ! j \<noteq> b ! j)"
proof (induction a b n i rule: bytesNotEqual_loop.induct)
  case (1 a b n i)
  show ?case
  proof (cases "i < n")
    case False
    then show ?thesis
      by (subst bytesNotEqual_loop.simps) auto
  next
    case True
    show ?thesis
    proof (cases "a ! i \<noteq> b ! i")
      case True
      with \<open>i < n\<close> show ?thesis
        by (subst bytesNotEqual_loop.simps) auto
    next
      case False
      have "(\<exists>j. i \<le> j \<and> j < n \<and> a ! j \<noteq> b ! j) \<longleftrightarrow> (\<exists>j. i + 1 \<le> j \<and> j < n \<and> a ! j \<noteq> b ! j)"
      proof
        assume "\<exists>j. i \<le> j \<and> j < n \<and> a ! j \<noteq> b ! j"
        then obtain j where j: "i \<le> j" "j < n" "a ! j \<noteq> b ! j" by blast
        with False have "j \<noteq> i" by auto
        with j have "i + 1 \<le> j \<and> j < n \<and> a ! j \<noteq> b ! j" by simp
        then show "\<exists>j. i + 1 \<le> j \<and> j < n \<and> a ! j \<noteq> b ! j" ..
      next
        assume "\<exists>j. i + 1 \<le> j \<and> j < n \<and> a ! j \<noteq> b ! j"
        then obtain j where j: "i + 1 \<le> j" "j < n" "a ! j \<noteq> b ! j" by blast
        then have "i \<le> j \<and> j < n \<and> a ! j \<noteq> b ! j" by simp
        then show "\<exists>j. i \<le> j \<and> j < n \<and> a ! j \<noteq> b ! j" ..
      qed
      with "1.IH" [OF \<open>i < n\<close>] False \<open>i < n\<close> show ?thesis
        by (subst bytesNotEqual_loop.simps) simp
    qed
  qed
qed

lemma bytesNotEqual_iff_neq: "bytesNotEqual a b \<longleftrightarrow> a \<noteq> b"
proof (cases "length a = length b")
  case False
  then show ?thesis by (auto simp: bytesNotEqual_def)
next
  case True
  then have "bytesNotEqual a b \<longleftrightarrow> (\<exists>j<length a. a ! j \<noteq> b ! j)"
    by (simp add: bytesNotEqual_def bytesNotEqual_loop_iff)
  also have "\<dots> \<longleftrightarrow> a \<noteq> b"
    using True by (auto simp: list_eq_iff_nth_eq)
  finally show ?thesis .
qed

lemma T_bytesNotEqual_loop_first:
  "i \<le> k \<Longrightarrow> k < n \<Longrightarrow> (\<forall>j. i \<le> j \<and> j < k \<longrightarrow> a ! j = b ! j) \<Longrightarrow> a ! k \<noteq> b ! k
    \<Longrightarrow> T_bytesNotEqual_loop a b n i = Suc k - i"
proof (induction a b n i rule: T_bytesNotEqual_loop.induct)
  case (1 a b n i)
  show ?case
  proof (cases "i = k")
    case True
    with "1.prems" show ?thesis
      by (subst T_bytesNotEqual_loop.simps) simp
  next
    case False
    with "1.prems" have lt: "i < k" and eq: "a ! i = b ! i" by auto
    from lt "1.prems" have "i < n" by simp
    have "T_bytesNotEqual_loop a b n (i + 1) = Suc k - (i + 1)"
      using "1.IH" [OF \<open>i < n\<close>] eq lt "1.prems" by simp
    with eq \<open>i < n\<close> lt show ?thesis
      by (subst T_bytesNotEqual_loop.simps) simp
  qed
qed

lemma T_bytesNotEqual_loop_equal:
  "(\<forall>j. i \<le> j \<and> j < n \<longrightarrow> a ! j = b ! j) \<Longrightarrow> T_bytesNotEqual_loop a b n i = n - i"
proof (induction a b n i rule: T_bytesNotEqual_loop.induct)
  case (1 a b n i)
  show ?case
  proof (cases "i < n")
    case False
    then show ?thesis
      by (subst T_bytesNotEqual_loop.simps) simp
  next
    case True
    with "1.prems" have eq: "a ! i = b ! i" by simp
    have "T_bytesNotEqual_loop a b n (i + 1) = n - (i + 1)"
      using "1.IH" [OF True] eq "1.prems" by simp
    with eq True show ?thesis
      by (subst T_bytesNotEqual_loop.simps) simp
  qed
qed

text \<open>
  Claim C3, as the code has it. \<open>bytesNotEqual a b\<close> is false exactly when \<open>a\<close> and \<open>b\<close> have
  the same length and agree at every index, and slices of different lengths are unequal
  (without any byte being compared). The loop does stop at the first differing byte: when
  the slices have the same length and first differ at index \<open>k\<close>, exactly \<open>k + 1\<close> bytes are
  compared. When the slices are equal, all their bytes are compared.
\<close>

theorem bytesNotEqual_correct:
  "(\<not> bytesNotEqual a b \<longleftrightarrow> length a = length b \<and> (\<forall>i<length a. a ! i = b ! i))
   \<and> (length a \<noteq> length b \<longrightarrow> bytesNotEqual a b \<and> T_bytesNotEqual a b = 0)
   \<and> (\<forall>k. length a = length b \<and> k < length a \<and> (\<forall>j<k. a ! j = b ! j) \<and> a ! k \<noteq> b ! k
          \<longrightarrow> T_bytesNotEqual a b = Suc k)
   \<and> (a = b \<longrightarrow> T_bytesNotEqual a b = length a)"
proof (intro conjI allI impI)
  show "\<not> bytesNotEqual a b \<longleftrightarrow> length a = length b \<and> (\<forall>i<length a. a ! i = b ! i)"
    by (auto simp: bytesNotEqual_iff_neq list_eq_iff_nth_eq)
next
  assume "length a \<noteq> length b"
  then show "bytesNotEqual a b" by (simp add: bytesNotEqual_def)
next
  assume "length a \<noteq> length b"
  then show "T_bytesNotEqual a b = 0" by (simp add: T_bytesNotEqual_def)
next
  fix k
  assume h: "length a = length b \<and> k < length a \<and> (\<forall>j<k. a ! j = b ! j) \<and> a ! k \<noteq> b ! k"
  then have "T_bytesNotEqual_loop a b (length a) 0 = Suc k - 0"
    by (intro T_bytesNotEqual_loop_first) simp_all
  with h show "T_bytesNotEqual a b = Suc k" by (simp add: T_bytesNotEqual_def)
next
  assume "a = b"
  then have "T_bytesNotEqual_loop a b (length a) 0 = length a - 0"
    by (intro T_bytesNotEqual_loop_equal) simp
  with \<open>a = b\<close> show "T_bytesNotEqual a b = length a" by (simp add: T_bytesNotEqual_def)
qed

theorem bytesNotEqual_correct_witness:
  "\<not> bytesNotEqual [1, 2] [1, 2]
   \<and> bytesNotEqual [1] [1, 2] \<and> T_bytesNotEqual [1] [1, 2] = 0
   \<and> T_bytesNotEqual [1, 2, 3] [1, 9, 3] = 2
   \<and> T_bytesNotEqual [1, 2] [1, 2] = 2"
proof -
  have same: "\<not> bytesNotEqual [1, 2] [1, 2] \<and> T_bytesNotEqual [1, 2] [1, 2] = 2"
    using bytesNotEqual_correct [of "[1, 2]" "[1, 2]"] by simp
  have len: "bytesNotEqual [1] [1, 2] \<and> T_bytesNotEqual [1] [1, 2] = 0"
    using bytesNotEqual_correct [of "[1]" "[1, 2]"] by simp
  have "\<forall>k. length [1, 2, 3 :: byte] = length [1, 9, 3 :: byte] \<and> k < length [1, 2, 3 :: byte]
           \<and> (\<forall>j<k. [1, 2, 3 :: byte] ! j = [1, 9, 3] ! j) \<and> [1, 2, 3 :: byte] ! k \<noteq> [1, 9, 3] ! k
          \<longrightarrow> T_bytesNotEqual [1, 2, 3] [1, 9, 3] = Suc k"
    using bytesNotEqual_correct [of "[1, 2, 3]" "[1, 9, 3]"] by blast
  from this [rule_format, of 1]
  have diff: "T_bytesNotEqual [1, 2, 3] [1, 9, 3] = 2" by simp
  from same len diff show ?thesis by simp
qed

text \<open>
  Against the last part of C3 as stated (the comparison examines the full length without
  stopping at the first differing byte): on two slices of length 3 that differ at index 0,
  one byte is compared.
\<close>

theorem bytesNotEqual_full_length_counterexample:
  "bytesNotEqual [1, 0, 0] [2, 0, 0]
   \<and> T_bytesNotEqual [1, 0, 0] [2, 0, 0] = 1
   \<and> T_bytesNotEqual [1, 0, 0] [2, 0, 0] < length [1 :: byte, 0, 0]"
  by (simp add: bytesNotEqual_def T_bytesNotEqual_def bytesNotEqual_loop.simps T_bytesNotEqual_loop.simps)

subsection \<open>One pass of the loop of Watch\<close>

text \<open>
  What a call of \<open>Watch\<close> does in its first pass, by the branch the pass takes: the state
  it leaves and what it returns, or the call it continues as.
\<close>

lemma Watch_ctxDone:
  "ctxDone p = Some e \<Longrightarrow>
     state (Watch w (p # ps)) = w \<and> returned (Watch w (p # ps)) = Some (Inl (ContextError e))"
  by (simp add: Watch.simps Let_def)

lemma Watch_timestamp_error:
  "ctxDone p = None \<Longrightarrow> getVariable p (name w) = Inr vpb \<Longrightarrow> parseUpdateTime vpb = Inl err \<Longrightarrow>
     state (Watch w (p # ps)) = w\<lparr>lastRPCTime := rpcNow p\<rparr>
     \<and> returned (Watch w (p # ps)) = Some (Inl err)"
  by (simp add: Watch.simps Let_def)

lemma Watch_change:
  "ctxDone p = None \<Longrightarrow> getVariable p (name w) = Inr vpb \<Longrightarrow> parseUpdateTime vpb = Inr ut \<Longrightarrow>
   isDeleted w \<or> bytesFromProto vpb \<noteq> bytes w \<Longrightarrow>
     state (Watch w (p # ps)) =
       w\<lparr>lastRPCTime := rpcNow p, bytes := bytesFromProto vpb, updateTime := ut, isDeleted := False\<rparr>
     \<and> returned (Watch w (p # ps)) =
       Some (case decoder w (bytesFromProto vpb) of
               Inl err \<Rightarrow> Inl (DecodeError err)
             | Inr val \<Rightarrow> Inr \<lparr>Value = val, UpdateTime = ut\<rparr>)"
  by (auto simp: Watch.simps Let_def bytesNotEqual_iff_neq split: sum.splits)

lemma Watch_unchanged:
  "ctxDone p = None \<Longrightarrow> getVariable p (name w) = Inr vpb \<Longrightarrow> parseUpdateTime vpb = Inr ut \<Longrightarrow>
   \<not> isDeleted w \<Longrightarrow> bytesFromProto vpb = bytes w \<Longrightarrow>
     state (Watch w (p # ps)) = state (Watch (w\<lparr>lastRPCTime := rpcNow p\<rparr>) ps)
     \<and> returned (Watch w (p # ps)) = returned (Watch (w\<lparr>lastRPCTime := rpcNow p\<rparr>) ps)"
  by (simp add: Watch.simps Let_def bytesNotEqual_iff_neq)

lemma Watch_other_rpc_error:
  "ctxDone p = None \<Longrightarrow> getVariable p (name w) = Inl err \<Longrightarrow>
   \<not> snd (FromError err) \<or> fst (FromError err) \<noteq> NotFound \<Longrightarrow>
     state (Watch w (p # ps)) = w\<lparr>lastRPCTime := rpcNow p\<rparr>
     \<and> returned (Watch w (p # ps)) = Some (Inl (RPCError err))"
  by (auto simp: Watch.simps Let_def split: prod.splits)

lemma Watch_first_not_found:
  "ctxDone p = None \<Longrightarrow> getVariable p (name w) = Inl err \<Longrightarrow> FromError err = (NotFound, True) \<Longrightarrow>
   \<not> isDeleted w \<Longrightarrow>
     state (Watch w (p # ps)) = w\<lparr>lastRPCTime := rpcNow p, isDeleted := True, updateTime := deleteNow p\<rparr>
     \<and> returned (Watch w (p # ps)) = Some (Inl (RPCError err))"
  by (simp add: Watch.simps Let_def)

lemma Watch_repeated_not_found:
  "ctxDone p = None \<Longrightarrow> getVariable p (name w) = Inl err \<Longrightarrow> FromError err = (NotFound, True) \<Longrightarrow>
   isDeleted w \<Longrightarrow>
     state (Watch w (p # ps)) = state (Watch (w\<lparr>lastRPCTime := rpcNow p\<rparr>) ps)
     \<and> returned (Watch w (p # ps)) = returned (Watch (w\<lparr>lastRPCTime := rpcNow p\<rparr>) ps)"
  by (simp add: Watch.simps Let_def)

subsection \<open>The example inputs evaluated\<close>

lemma ex_parse_ok:
  "parseUpdateTime (ex_var bs (Some \<lparr>Seconds = 1, Nanos = 0\<rparr>)) = Inr 1000000000"
  by (simp add: parseUpdateTime_def ptypes_Timestamp_def ex_var_def minValidSeconds_def
      maxValidSeconds_def Unix_def)

lemma ex_parse_nil:
  "parseUpdateTime (ex_var bs None) =
     Inl (InvalidTimestamp ''projects/p/configs/c/variables/v'' NilTimestamp)"
  by (simp add: parseUpdateTime_def ptypes_Timestamp_def ex_var_def)

lemma ex_bytes: "bytesFromProto (ex_var bs ts) = bs"
  by (simp add: bytesFromProto_def ex_var_def)

lemma ex_poll_sel:
  "ctxDone (ex_poll r) = None" "getVariable (ex_poll r) n = r" "rpcNow (ex_poll r) = 6"
  "deleteNow (ex_poll r) = 7" "timerNow (ex_poll r) = 5"
  by (simp_all add: ex_poll_def)

lemma ex_watcher_sel:
  "bytes ex_watcher = []" "isDeleted ex_watcher = False" "updateTime ex_watcher = zeroTime"
  "decoder ex_watcher = ex_decode" "waitTime ex_watcher = 600000000000"
  "lastRPCTime ex_watcher = - 600000000000"
  by (simp_all add: ex_watcher_def)

subsection \<open>Malformed data\<close>

text \<open>
  Claim C1, as the code has it. In a pass whose fetch succeeds:
  \<^item> when the timestamp of the payload is malformed, \<open>Watch\<close> returns that error and leaves
    \<open>bytes\<close>, \<open>updateTime\<close> and \<open>isDeleted\<close> as they were (only \<open>lastRPCTime\<close> is set), so
    a later well-formed fetch is compared against the state before the error: it is
    decoded and returned when the watcher was deleted or its bytes differ from those cached
    before the error;
  \<^item> when the bytes fail to decode (they are decoded only when the watcher was deleted or
    they differ from the cached bytes), \<open>Watch\<close> returns the decoder's error after it has
    stored the fetched bytes and their update time and cleared \<open>isDeleted\<close>.
\<close>

theorem Watch_malformed_data:
  assumes "ctxDone p = None" and "getVariable p (name w) = Inr vpb"
  shows "(\<forall>err. parseUpdateTime vpb = Inl err \<longrightarrow>
            returned (Watch w (p # ps)) = Some (Inl err)
            \<and> state (Watch w (p # ps)) = w\<lparr>lastRPCTime := rpcNow p\<rparr>
            \<and> bytes (state (Watch w (p # ps))) = bytes w
            \<and> updateTime (state (Watch w (p # ps))) = updateTime w
            \<and> isDeleted (state (Watch w (p # ps))) = isDeleted w)
       \<and> (\<forall>err p' vpb' ut' ps'.
            parseUpdateTime vpb = Inl err \<and> ctxDone p' = None
            \<and> getVariable p' (name w) = Inr vpb' \<and> parseUpdateTime vpb' = Inr ut'
            \<and> (isDeleted w \<or> bytesFromProto vpb' \<noteq> bytes w) \<longrightarrow>
            returned (Watch (state (Watch w (p # ps))) (p' # ps')) =
              Some (case decoder w (bytesFromProto vpb') of
                      Inl e \<Rightarrow> Inl (DecodeError e)
                    | Inr val \<Rightarrow> Inr \<lparr>Value = val, UpdateTime = ut'\<rparr>))
       \<and> (\<forall>ut derr.
            parseUpdateTime vpb = Inr ut \<and> (isDeleted w \<or> bytesFromProto vpb \<noteq> bytes w)
            \<and> decoder w (bytesFromProto vpb) = Inl derr \<longrightarrow>
            returned (Watch w (p # ps)) = Some (Inl (DecodeError derr))
            \<and> state (Watch w (p # ps)) =
                w\<lparr>lastRPCTime := rpcNow p, bytes := bytesFromProto vpb, updateTime := ut,
                  isDeleted := False\<rparr>)"
proof (intro conjI allI impI)
  fix err
  assume "parseUpdateTime vpb = Inl err"
  from Watch_timestamp_error [OF assms this, of ps]
  show "returned (Watch w (p # ps)) = Some (Inl err)"
    and "state (Watch w (p # ps)) = w\<lparr>lastRPCTime := rpcNow p\<rparr>"
    and "bytes (state (Watch w (p # ps))) = bytes w"
    and "updateTime (state (Watch w (p # ps))) = updateTime w"
    and "isDeleted (state (Watch w (p # ps))) = isDeleted w"
    by simp_all
next
  fix err and p' :: poll and vpb' ut' and ps' :: "poll list"
  assume h: "parseUpdateTime vpb = Inl err \<and> ctxDone p' = None
            \<and> getVariable p' (name w) = Inr vpb' \<and> parseUpdateTime vpb' = Inr ut'
            \<and> (isDeleted w \<or> bytesFromProto vpb' \<noteq> bytes w)"
  let ?w' = "w\<lparr>lastRPCTime := rpcNow p\<rparr>"
  from h have st: "state (Watch w (p # ps)) = ?w'"
    using Watch_timestamp_error [OF assms, of err ps] by simp
  from h have "returned (Watch ?w' (p' # ps')) =
      Some (case decoder ?w' (bytesFromProto vpb') of
              Inl e \<Rightarrow> Inl (DecodeError e)
            | Inr val \<Rightarrow> Inr \<lparr>Value = val, UpdateTime = ut'\<rparr>)"
    using Watch_change [of p' ?w' vpb' ut' ps'] by simp
  with st show "returned (Watch (state (Watch w (p # ps))) (p' # ps')) =
      Some (case decoder w (bytesFromProto vpb') of
              Inl e \<Rightarrow> Inl (DecodeError e)
            | Inr val \<Rightarrow> Inr \<lparr>Value = val, UpdateTime = ut'\<rparr>)"
    by simp
next
  fix ut derr
  assume h: "parseUpdateTime vpb = Inr ut \<and> (isDeleted w \<or> bytesFromProto vpb \<noteq> bytes w)
            \<and> decoder w (bytesFromProto vpb) = Inl derr"
  then show "returned (Watch w (p # ps)) = Some (Inl (DecodeError derr))"
    and "state (Watch w (p # ps)) =
                w\<lparr>lastRPCTime := rpcNow p, bytes := bytesFromProto vpb, updateTime := ut,
                  isDeleted := False\<rparr>"
    using Watch_change [OF assms, of ut ps] by simp_all
qed

theorem Watch_malformed_data_witness:
  "returned (Watch ex_watcher [ex_poll (Inr (ex_var [1, 2] None))]) =
     Some (Inl (InvalidTimestamp ''projects/p/configs/c/variables/v'' NilTimestamp))
   \<and> state (Watch ex_watcher [ex_poll (Inr (ex_var [1, 2] None))]) = ex_watcher\<lparr>lastRPCTime := 6\<rparr>
   \<and> returned (Watch (state (Watch ex_watcher [ex_poll (Inr (ex_var [1, 2] None))]))
        [ex_poll (Inr (ex_var [1, 2] (Some \<lparr>Seconds = 1, Nanos = 0\<rparr>)))]) =
     Some (Inr \<lparr>Value = 2, UpdateTime = 1000000000\<rparr>)
   \<and> returned (Watch ex_watcher [ex_poll (Inr (ex_var [7] (Some \<lparr>Seconds = 1, Nanos = 0\<rparr>)))]) =
     Some (Inl (DecodeError ''short''))
   \<and> state (Watch ex_watcher [ex_poll (Inr (ex_var [7] (Some \<lparr>Seconds = 1, Nanos = 0\<rparr>)))]) =
     ex_watcher\<lparr>lastRPCTime := 6, bytes := [7], updateTime := 1000000000, isDeleted := False\<rparr>"
proof -
  let ?bad = "ex_var [1, 2] None"
  let ?good = "ex_var [1, 2] (Some \<lparr>Seconds = 1, Nanos = 0\<rparr>)"
  let ?short = "ex_var [7] (Some \<lparr>Seconds = 1, Nanos = 0\<rparr>)"
  have dec: "decoder ex_watcher [1, 2] = Inr 2" "decoder ex_watcher [7] = Inl ''short''"
    by (simp_all add: ex_watcher_sel ex_decode_def)
  have poll: "ctxDone (ex_poll r) = None" "getVariable (ex_poll r) (name ex_watcher) = r" for r
    by (simp_all add: ex_poll_sel)
  note bad = Watch_malformed_data [where p = "ex_poll (Inr ?bad)" and w = ex_watcher
      and vpb = ?bad and ps = "[]", OF poll]
  note short = Watch_malformed_data [where p = "ex_poll (Inr ?short)" and w = ex_watcher
      and vpb = ?short and ps = "[]", OF poll]
  from bad [THEN conjunct1, rule_format, OF ex_parse_nil]
  have 1: "returned (Watch ex_watcher [ex_poll (Inr ?bad)]) =
             Some (Inl (InvalidTimestamp ''projects/p/configs/c/variables/v'' NilTimestamp))
           \<and> state (Watch ex_watcher [ex_poll (Inr ?bad)]) = ex_watcher\<lparr>lastRPCTime := 6\<rparr>"
    by (simp add: ex_poll_sel)
  from bad [THEN conjunct2, THEN conjunct1, rule_format,
      of _ "ex_poll (Inr ?good)" ?good 1000000000 "[]"]
  have 2: "returned (Watch (state (Watch ex_watcher [ex_poll (Inr ?bad)])) [ex_poll (Inr ?good)]) =
             Some (Inr \<lparr>Value = 2, UpdateTime = 1000000000\<rparr>)"
    by (simp add: ex_poll_sel ex_parse_nil ex_parse_ok ex_bytes ex_watcher_sel(1,2) dec)
  from short [THEN conjunct2, THEN conjunct2, rule_format, of 1000000000 "''short''"]
  have 3: "returned (Watch ex_watcher [ex_poll (Inr ?short)]) = Some (Inl (DecodeError ''short''))
           \<and> state (Watch ex_watcher [ex_poll (Inr ?short)]) =
               ex_watcher\<lparr>lastRPCTime := 6, bytes := [7], updateTime := 1000000000, isDeleted := False\<rparr>"
    by (simp add: ex_poll_sel ex_parse_ok ex_bytes ex_watcher_sel(1,2) dec)
  from 1 2 3 show ?thesis by simp
qed

text \<open>
  Against C1 as stated (a decode failure leaves the cached state as it was): the fresh
  watcher, whose cached bytes are empty, fetches the one byte \<open>7\<close>, which the decoder
  refuses. \<open>Watch\<close> returns the decoder's error, and the cached bytes and update time are
  those of the fetch.
\<close>

theorem Watch_decode_error_counterexample:
  "returned (Watch ex_watcher [ex_poll (Inr (ex_var [7] (Some \<lparr>Seconds = 1, Nanos = 0\<rparr>)))]) =
     Some (Inl (DecodeError ''short''))
   \<and> bytes (state (Watch ex_watcher [ex_poll (Inr (ex_var [7] (Some \<lparr>Seconds = 1, Nanos = 0\<rparr>)))])) = [7]
   \<and> bytes ex_watcher = []
   \<and> updateTime (state (Watch ex_watcher [ex_poll (Inr (ex_var [7] (Some \<lparr>Seconds = 1, Nanos = 0\<rparr>)))])) = 1000000000
   \<and> updateTime ex_watcher = - 62135596800000000000"
proof -
  let ?short = "ex_var [7] (Some \<lparr>Seconds = 1, Nanos = 0\<rparr>)"
  have "state (Watch ex_watcher [ex_poll (Inr ?short)]) =
          ex_watcher\<lparr>lastRPCTime := 6, bytes := [7], updateTime := 1000000000, isDeleted := False\<rparr>
        \<and> returned (Watch ex_watcher [ex_poll (Inr ?short)]) = Some (Inl (DecodeError ''short''))"
    using Watch_change [of "ex_poll (Inr ?short)" ex_watcher ?short 1000000000 "[]"]
    by (simp add: ex_poll_sel ex_parse_ok ex_bytes ex_watcher_sel ex_decode_def)
  then show ?thesis
    by (simp add: ex_watcher_sel zeroTime_def)
qed

subsection \<open>What a call of Watch does to the cached bytes and the deleted flag\<close>

text \<open>
  A call of \<open>Watch\<close>, over any number of passes, does one of three things: it leaves the
  cached bytes and the flag as they were and returns no value; or it reports a first
  not-found, sets the flag and keeps the bytes; or it detects a change, stores the bytes and
  the update time of a fetch of one of its passes, clears the flag and returns what the
  decoder gives for those bytes.
\<close>

lemma Watch_frame:
  "(bytes (state (Watch w ps)) = bytes w \<and> isDeleted (state (Watch w ps)) = isDeleted w
      \<and> (\<forall>v. returned (Watch w ps) \<noteq> Some (Inr v)))
   \<or> (bytes (state (Watch w ps)) = bytes w \<and> \<not> isDeleted w \<and> isDeleted (state (Watch w ps))
      \<and> (\<exists>e. returned (Watch w ps) = Some (Inl (RPCError e)) \<and> FromError e = (NotFound, True)))
   \<or> (\<not> isDeleted (state (Watch w ps)) \<and> (isDeleted w \<or> bytes (state (Watch w ps)) \<noteq> bytes w)
      \<and> (\<exists>r. returned (Watch w ps) = Some r
            \<and> (\<forall>v. r = Inr v \<longrightarrow> decoder w (bytes (state (Watch w ps))) = Inr (Value v))
            \<and> (\<forall>e. r = Inl e \<longrightarrow> (\<exists>d. e = DecodeError d \<and> decoder w (bytes (state (Watch w ps))) = Inl d))))"
proof (induction ps arbitrary: w)
  case Nil
  show ?case by (simp add: Watch.simps)
next
  case (Cons p ps)
  show ?case
  proof (cases "ctxDone p")
    case (Some e)
    from Watch_ctxDone [OF this, of w ps] show ?thesis by simp
  next
    case None
    let ?w1 = "w\<lparr>lastRPCTime := rpcNow p\<rparr>"
    show ?thesis
    proof (cases "getVariable p (name w)")
      case (Inr vpb)
      show ?thesis
      proof (cases "parseUpdateTime vpb")
        case (Inl err)
        from Watch_timestamp_error [OF None Inr Inl, of ps] show ?thesis by simp
      next
        case ut: (Inr ut)
        show ?thesis
        proof (cases "isDeleted w \<or> bytesFromProto vpb \<noteq> bytes w")
          case True
          from Watch_change [OF None Inr ut True, of ps] True show ?thesis
            by (auto split: sum.splits)
        next
          case False
          then have "\<not> isDeleted w" "bytesFromProto vpb = bytes w" by simp_all
          from Watch_unchanged [OF None Inr ut this, of ps] Cons.IH [of ?w1]
          show ?thesis by simp
        qed
      qed
    next
      case (Inl err)
      show ?thesis
      proof (cases "FromError err = (NotFound, True)")
        case False
        then have "\<not> snd (FromError err) \<or> fst (FromError err) \<noteq> NotFound"
          by (cases "FromError err") auto
        from Watch_other_rpc_error [OF None Inl this, of ps] show ?thesis by simp
      next
        case nf: True
        show ?thesis
        proof (cases "isDeleted w")
          case True
          from Watch_repeated_not_found [OF None Inl nf True, of ps] Cons.IH [of ?w1]
          show ?thesis by simp
        next
          case False
          from Watch_first_not_found [OF None Inl nf False, of ps] False nf
          show ?thesis by simp
        qed
      qed
    qed
  qed
qed


lemma Watch_stored:
  "\<not> isDeleted (state (Watch w ps)) \<Longrightarrow>
   isDeleted w \<or> bytes (state (Watch w ps)) \<noteq> bytes w \<Longrightarrow>
     \<exists>q vpb ut. q \<in> set ps \<and> ctxDone q = None \<and> getVariable q (name w) = Inr vpb
       \<and> parseUpdateTime vpb = Inr ut \<and> (isDeleted w \<or> bytesFromProto vpb \<noteq> bytes w)
       \<and> bytes (state (Watch w ps)) = bytesFromProto vpb
       \<and> updateTime (state (Watch w ps)) = ut"
proof (induction ps arbitrary: w)
  case Nil
  then show ?case by simp
next
  case (Cons p ps)
  let ?w1 = "w\<lparr>lastRPCTime := rpcNow p\<rparr>"
  have loop: ?case if st: "state (Watch w (p # ps)) = state (Watch ?w1 ps)"
  proof -
    from Cons.prems st have "\<not> isDeleted (state (Watch ?w1 ps))"
      and "isDeleted ?w1 \<or> bytes (state (Watch ?w1 ps)) \<noteq> bytes ?w1"
      by simp_all
    from Cons.IH [OF this] obtain q vpb ut where q: "q \<in> set ps" "ctxDone q = None"
      "getVariable q (name w) = Inr vpb" "parseUpdateTime vpb = Inr ut"
      "isDeleted w \<or> bytesFromProto vpb \<noteq> bytes w"
      "bytes (state (Watch ?w1 ps)) = bytesFromProto vpb"
      "updateTime (state (Watch ?w1 ps)) = ut"
      by auto
    from q(1) have "q \<in> set (p # ps)" by simp
    with q(2-) st show ?thesis by metis
  qed
  show ?case
  proof (cases "ctxDone p")
    case (Some e)
    from Watch_ctxDone [OF this, of w ps] Cons.prems show ?thesis by simp
  next
    case None
    show ?thesis
    proof (cases "getVariable p (name w)")
      case (Inr vpb)
      show ?thesis
      proof (cases "parseUpdateTime vpb")
        case (Inl err)
        from Watch_timestamp_error [OF None Inr Inl, of ps] Cons.prems show ?thesis by simp
      next
        case ut: (Inr ut)
        show ?thesis
        proof (cases "isDeleted w \<or> bytesFromProto vpb \<noteq> bytes w")
          case True
          have "p \<in> set (p # ps)" by simp
          moreover from Watch_change [OF None Inr ut True, of ps]
          have "bytes (state (Watch w (p # ps))) = bytesFromProto vpb"
            and "updateTime (state (Watch w (p # ps))) = ut"
            by simp_all
          ultimately show ?thesis using None Inr ut True by metis
        next
          case False
          then have "\<not> isDeleted w" "bytesFromProto vpb = bytes w" by simp_all
          from Watch_unchanged [OF None Inr ut this, of ps] show ?thesis
            by (intro loop) simp
        qed
      qed
    next
      case (Inl err)
      show ?thesis
      proof (cases "FromError err = (NotFound, True)")
        case False
        then have "\<not> snd (FromError err) \<or> fst (FromError err) \<noteq> NotFound"
          by (cases "FromError err") auto
        from Watch_other_rpc_error [OF None Inl this, of ps] Cons.prems show ?thesis by simp
      next
        case nf: True
        show ?thesis
        proof (cases "isDeleted w")
          case True
          from Watch_repeated_not_found [OF None Inl nf True, of ps] show ?thesis
            by (intro loop) simp
        next
          case False
          from Watch_first_not_found [OF None Inl nf False, of ps] Cons.prems
          show ?thesis by simp
        qed
      qed
    qed
  qed
qed

lemma Watch_keeps:
  "name (state (Watch w ps)) = name w \<and> decoder (state (Watch w ps)) = decoder w
   \<and> waitTime (state (Watch w ps)) = waitTime w"
proof (induction ps arbitrary: w)
  case Nil
  show ?case by (simp add: Watch.simps)
next
  case (Cons p ps)
  from Cons.IH [of "w\<lparr>lastRPCTime := rpcNow p\<rparr>"] show ?case
    by (simp add: Watch.simps Let_def split: option.splits sum.splits prod.splits)
qed

lemma Watch_single_fetched:
  assumes "ctxDone p = None" "getVariable p (name w) = Inr vpb" "parseUpdateTime vpb = Inr ut"
  shows "bytes (state (Watch w [p])) = bytesFromProto vpb \<and> \<not> isDeleted (state (Watch w [p]))"
proof (cases "isDeleted w \<or> bytesFromProto vpb \<noteq> bytes w")
  case True
  from Watch_change [OF assms True, of "[]"] show ?thesis by simp
next
  case False
  then have "\<not> isDeleted w" "bytesFromProto vpb = bytes w" by simp_all
  from Watch_unchanged [OF assms this, of "[]"] this show ?thesis by simp
qed

subsection \<open>The deleted flag and the cached bytes\<close>

text \<open>
  Claim C2, as the code has it. Non-empty cached bytes and the deleted flag are not
  exclusive. A pass of the loop of \<open>Watch\<close> acts on the cached bytes and the flag as follows:
  \<^item> it leaves both as they were when the context is done, when the timestamp of a fetched
    payload is malformed, and when the fetch fails with an error other than not-found;
  \<^item> on a fetch with a well-formed timestamp it stores the fetched bytes and clears the flag
    when the watcher was deleted or the fetched bytes differ from the cached ones; otherwise
    it leaves both as they were and the loop goes on;
  \<^item> on a not-found error it sets the flag and keeps the cached bytes when the watcher was
    not deleted; otherwise it leaves both as they were and the loop goes on.
  So a call of \<open>Watch\<close>, over all its passes, leaves both as they were, or sets the flag and
  keeps the cached bytes, or clears the flag with the bytes of a fetch of one of its passes.
\<close>

theorem Watch_bytes_isDeleted:
  "(ctxDone p = Some e \<longrightarrow>
      bytes (state (Watch w (p # ps))) = bytes w \<and> isDeleted (state (Watch w (p # ps))) = isDeleted w)
   \<and> (ctxDone p = None \<and> getVariable p (name w) = Inr vpb \<and> parseUpdateTime vpb = Inl perr \<longrightarrow>
      bytes (state (Watch w (p # ps))) = bytes w \<and> isDeleted (state (Watch w (p # ps))) = isDeleted w)
   \<and> (ctxDone p = None \<and> getVariable p (name w) = Inr vpb \<and> parseUpdateTime vpb = Inr ut
      \<and> (isDeleted w \<or> bytesFromProto vpb \<noteq> bytes w) \<longrightarrow>
      bytes (state (Watch w (p # ps))) = bytesFromProto vpb \<and> \<not> isDeleted (state (Watch w (p # ps))))
   \<and> (ctxDone p = None \<and> getVariable p (name w) = Inr vpb \<and> parseUpdateTime vpb = Inr ut
      \<and> \<not> isDeleted w \<and> bytesFromProto vpb = bytes w \<longrightarrow>
      bytes (state (Watch w [p])) = bytes w \<and> \<not> isDeleted (state (Watch w [p]))
      \<and> state (Watch w (p # ps)) = state (Watch (state (Watch w [p])) ps))
   \<and> (ctxDone p = None \<and> getVariable p (name w) = Inl err \<and> FromError err \<noteq> (NotFound, True) \<longrightarrow>
      bytes (state (Watch w (p # ps))) = bytes w \<and> isDeleted (state (Watch w (p # ps))) = isDeleted w)
   \<and> (ctxDone p = None \<and> getVariable p (name w) = Inl err \<and> FromError err = (NotFound, True)
      \<and> \<not> isDeleted w \<longrightarrow>
      bytes (state (Watch w (p # ps))) = bytes w \<and> isDeleted (state (Watch w (p # ps))))
   \<and> (ctxDone p = None \<and> getVariable p (name w) = Inl err \<and> FromError err = (NotFound, True)
      \<and> isDeleted w \<longrightarrow>
      bytes (state (Watch w [p])) = bytes w \<and> isDeleted (state (Watch w [p]))
      \<and> state (Watch w (p # ps)) = state (Watch (state (Watch w [p])) ps))
   \<and> ((bytes (state (Watch w qs)) = bytes w \<and> isDeleted (state (Watch w qs)) = isDeleted w)
      \<or> (bytes (state (Watch w qs)) = bytes w \<and> \<not> isDeleted w \<and> isDeleted (state (Watch w qs)))
      \<or> (\<not> isDeleted (state (Watch w qs))
          \<and> (\<exists>q vpb' ut'. q \<in> set qs \<and> ctxDone q = None \<and> getVariable q (name w) = Inr vpb'
                \<and> parseUpdateTime vpb' = Inr ut' \<and> (isDeleted w \<or> bytesFromProto vpb' \<noteq> bytes w)
                \<and> bytes (state (Watch w qs)) = bytesFromProto vpb')))"
proof (intro conjI impI)
  assume "ctxDone p = Some e"
  from Watch_ctxDone [OF this, of w ps]
  show "bytes (state (Watch w (p # ps))) = bytes w"
    and "isDeleted (state (Watch w (p # ps))) = isDeleted w"
    by simp_all
next
  assume "ctxDone p = None \<and> getVariable p (name w) = Inr vpb \<and> parseUpdateTime vpb = Inl perr"
  with Watch_timestamp_error [of p w vpb perr ps]
  show "bytes (state (Watch w (p # ps))) = bytes w"
    and "isDeleted (state (Watch w (p # ps))) = isDeleted w"
    by simp_all
next
  assume "ctxDone p = None \<and> getVariable p (name w) = Inr vpb \<and> parseUpdateTime vpb = Inr ut
      \<and> (isDeleted w \<or> bytesFromProto vpb \<noteq> bytes w)"
  with Watch_change [of p w vpb ut ps]
  show "bytes (state (Watch w (p # ps))) = bytesFromProto vpb"
    and "\<not> isDeleted (state (Watch w (p # ps)))"
    by simp_all
next
  assume h: "ctxDone p = None \<and> getVariable p (name w) = Inr vpb \<and> parseUpdateTime vpb = Inr ut
      \<and> \<not> isDeleted w \<and> bytesFromProto vpb = bytes w"
  with Watch_unchanged [of p w vpb ut "[]"]
  have one: "state (Watch w [p]) = w\<lparr>lastRPCTime := rpcNow p\<rparr>" by simp
  with h show "bytes (state (Watch w [p])) = bytes w" and "\<not> isDeleted (state (Watch w [p]))"
    by simp_all
  from h one Watch_unchanged [of p w vpb ut ps]
  show "state (Watch w (p # ps)) = state (Watch (state (Watch w [p])) ps)" by simp
next
  assume h: "ctxDone p = None \<and> getVariable p (name w) = Inl err
      \<and> FromError err \<noteq> (NotFound, True)"
  then have "\<not> snd (FromError err) \<or> fst (FromError err) \<noteq> NotFound"
    by (cases "FromError err") auto
  with h Watch_other_rpc_error [of p w err ps]
  show "bytes (state (Watch w (p # ps))) = bytes w"
    and "isDeleted (state (Watch w (p # ps))) = isDeleted w"
    by simp_all
next
  assume "ctxDone p = None \<and> getVariable p (name w) = Inl err \<and> FromError err = (NotFound, True)
      \<and> \<not> isDeleted w"
  with Watch_first_not_found [of p w err ps]
  show "bytes (state (Watch w (p # ps))) = bytes w" and "isDeleted (state (Watch w (p # ps)))"
    by simp_all
next
  assume h: "ctxDone p = None \<and> getVariable p (name w) = Inl err \<and> FromError err = (NotFound, True)
      \<and> isDeleted w"
  with Watch_repeated_not_found [of p w err "[]"]
  have one: "state (Watch w [p]) = w\<lparr>lastRPCTime := rpcNow p\<rparr>" by simp
  with h show "bytes (state (Watch w [p])) = bytes w" and "isDeleted (state (Watch w [p]))"
    by simp_all
  from h one Watch_repeated_not_found [of p w err ps]
  show "state (Watch w (p # ps)) = state (Watch (state (Watch w [p])) ps)" by simp
next
  show "(bytes (state (Watch w qs)) = bytes w \<and> isDeleted (state (Watch w qs)) = isDeleted w)
      \<or> (bytes (state (Watch w qs)) = bytes w \<and> \<not> isDeleted w \<and> isDeleted (state (Watch w qs)))
      \<or> (\<not> isDeleted (state (Watch w qs))
          \<and> (\<exists>q vpb' ut'. q \<in> set qs \<and> ctxDone q = None \<and> getVariable q (name w) = Inr vpb'
                \<and> parseUpdateTime vpb' = Inr ut' \<and> (isDeleted w \<or> bytesFromProto vpb' \<noteq> bytes w)
                \<and> bytes (state (Watch w qs)) = bytesFromProto vpb'))"
  proof (cases "\<not> isDeleted (state (Watch w qs))
      \<and> (isDeleted w \<or> bytes (state (Watch w qs)) \<noteq> bytes w)")
    case True
    with Watch_stored [of w qs] show ?thesis by blast
  next
    case False
    with Watch_frame [of w qs] show ?thesis by auto
  qed
qed

theorem Watch_bytes_isDeleted_witness:
  "bytes (state (Watch (ex_watcher\<lparr>bytes := [1, 2], isDeleted := True\<rparr>) [((ex_poll (Inl (PlainError ''EOF'')))\<lparr>ctxDone := Some ContextCanceled\<rparr>)])) = [1, 2] \<and> isDeleted (state (Watch (ex_watcher\<lparr>bytes := [1, 2], isDeleted := True\<rparr>) [((ex_poll (Inl (PlainError ''EOF'')))\<lparr>ctxDone := Some ContextCanceled\<rparr>)]))
   \<and> bytes (state (Watch (ex_watcher\<lparr>bytes := [1, 2], isDeleted := True\<rparr>) [(ex_poll (Inr (ex_var [3, 4] None)))])) = [1, 2] \<and> isDeleted (state (Watch (ex_watcher\<lparr>bytes := [1, 2], isDeleted := True\<rparr>) [(ex_poll (Inr (ex_var [3, 4] None)))]))
   \<and> bytes (state (Watch (ex_watcher\<lparr>bytes := [1, 2]\<rparr>) [(ex_poll (Inr (ex_var [3, 4] (Some \<lparr>Seconds = 1, Nanos = 0\<rparr>))))])) = [3, 4] \<and> \<not> isDeleted (state (Watch (ex_watcher\<lparr>bytes := [1, 2]\<rparr>) [(ex_poll (Inr (ex_var [3, 4] (Some \<lparr>Seconds = 1, Nanos = 0\<rparr>))))]))
   \<and> bytes (state (Watch (ex_watcher\<lparr>bytes := [1, 2], isDeleted := True\<rparr>) [(ex_poll (Inr (ex_var [1, 2] (Some \<lparr>Seconds = 1, Nanos = 0\<rparr>))))])) = [1, 2] \<and> \<not> isDeleted (state (Watch (ex_watcher\<lparr>bytes := [1, 2], isDeleted := True\<rparr>) [(ex_poll (Inr (ex_var [1, 2] (Some \<lparr>Seconds = 1, Nanos = 0\<rparr>))))]))
   \<and> bytes (state (Watch (ex_watcher\<lparr>bytes := [1, 2]\<rparr>) [(ex_poll (Inr (ex_var [1, 2] (Some \<lparr>Seconds = 1, Nanos = 0\<rparr>))))])) = [1, 2] \<and> \<not> isDeleted (state (Watch (ex_watcher\<lparr>bytes := [1, 2]\<rparr>) [(ex_poll (Inr (ex_var [1, 2] (Some \<lparr>Seconds = 1, Nanos = 0\<rparr>))))]))
   \<and> bytes (state (Watch (ex_watcher\<lparr>bytes := [1, 2], isDeleted := True\<rparr>) [(ex_poll (Inl (StatusError Unavailable ''down'')))])) = [1, 2] \<and> isDeleted (state (Watch (ex_watcher\<lparr>bytes := [1, 2], isDeleted := True\<rparr>) [(ex_poll (Inl (StatusError Unavailable ''down'')))]))
   \<and> bytes (state (Watch (ex_watcher\<lparr>bytes := [1, 2]\<rparr>) [(ex_poll (Inl (StatusError NotFound ''gone'')))])) = [1, 2] \<and> isDeleted (state (Watch (ex_watcher\<lparr>bytes := [1, 2]\<rparr>) [(ex_poll (Inl (StatusError NotFound ''gone'')))]))
   \<and> bytes (state (Watch (ex_watcher\<lparr>bytes := [1, 2], isDeleted := True\<rparr>) [(ex_poll (Inl (StatusError NotFound ''gone'')))])) = [1, 2] \<and> isDeleted (state (Watch (ex_watcher\<lparr>bytes := [1, 2], isDeleted := True\<rparr>) [(ex_poll (Inl (StatusError NotFound ''gone'')))]))"
proof -
  from Watch_bytes_isDeleted [where w = "ex_watcher\<lparr>bytes := [1, 2], isDeleted := True\<rparr>" and p = "(ex_poll (Inl (PlainError ''EOF'')))\<lparr>ctxDone := Some ContextCanceled\<rparr>" and ps = "[]"
      and e = ContextCanceled,
      THEN conjunct1]
  have f1: "bytes (state (Watch (ex_watcher\<lparr>bytes := [1, 2], isDeleted := True\<rparr>) [((ex_poll (Inl (PlainError ''EOF'')))\<lparr>ctxDone := Some ContextCanceled\<rparr>)])) = [1, 2] \<and> isDeleted (state (Watch (ex_watcher\<lparr>bytes := [1, 2], isDeleted := True\<rparr>) [((ex_poll (Inl (PlainError ''EOF'')))\<lparr>ctxDone := Some ContextCanceled\<rparr>)]))"
    by (simp add: ex_poll_sel ex_parse_ok ex_parse_nil ex_bytes ex_watcher_sel)
  from Watch_bytes_isDeleted [where w = "ex_watcher\<lparr>bytes := [1, 2], isDeleted := True\<rparr>" and p = "ex_poll (Inr (ex_var [3, 4] None))" and ps = "[]"
      and vpb = "ex_var [3, 4] None" and perr = "InvalidTimestamp ''projects/p/configs/c/variables/v'' NilTimestamp",
      THEN conjunct2, THEN conjunct1]
  have f2: "bytes (state (Watch (ex_watcher\<lparr>bytes := [1, 2], isDeleted := True\<rparr>) [(ex_poll (Inr (ex_var [3, 4] None)))])) = [1, 2] \<and> isDeleted (state (Watch (ex_watcher\<lparr>bytes := [1, 2], isDeleted := True\<rparr>) [(ex_poll (Inr (ex_var [3, 4] None)))]))"
    by (simp add: ex_poll_sel ex_parse_ok ex_parse_nil ex_bytes ex_watcher_sel)
  from Watch_bytes_isDeleted [where w = "ex_watcher\<lparr>bytes := [1, 2]\<rparr>" and p = "ex_poll (Inr (ex_var [3, 4] (Some \<lparr>Seconds = 1, Nanos = 0\<rparr>)))" and ps = "[]"
      and vpb = "ex_var [3, 4] (Some \<lparr>Seconds = 1, Nanos = 0\<rparr>)" and ut = 1000000000,
      THEN conjunct2, THEN conjunct2, THEN conjunct1]
  have f3: "bytes (state (Watch (ex_watcher\<lparr>bytes := [1, 2]\<rparr>) [(ex_poll (Inr (ex_var [3, 4] (Some \<lparr>Seconds = 1, Nanos = 0\<rparr>))))])) = [3, 4] \<and> \<not> isDeleted (state (Watch (ex_watcher\<lparr>bytes := [1, 2]\<rparr>) [(ex_poll (Inr (ex_var [3, 4] (Some \<lparr>Seconds = 1, Nanos = 0\<rparr>))))]))"
    by (simp add: ex_poll_sel ex_parse_ok ex_parse_nil ex_bytes ex_watcher_sel)
  from Watch_bytes_isDeleted [where w = "ex_watcher\<lparr>bytes := [1, 2], isDeleted := True\<rparr>" and p = "ex_poll (Inr (ex_var [1, 2] (Some \<lparr>Seconds = 1, Nanos = 0\<rparr>)))" and ps = "[]"
      and vpb = "ex_var [1, 2] (Some \<lparr>Seconds = 1, Nanos = 0\<rparr>)" and ut = 1000000000,
      THEN conjunct2, THEN conjunct2, THEN conjunct1]
  have f4: "bytes (state (Watch (ex_watcher\<lparr>bytes := [1, 2], isDeleted := True\<rparr>) [(ex_poll (Inr (ex_var [1, 2] (Some \<lparr>Seconds = 1, Nanos = 0\<rparr>))))])) = [1, 2] \<and> \<not> isDeleted (state (Watch (ex_watcher\<lparr>bytes := [1, 2], isDeleted := True\<rparr>) [(ex_poll (Inr (ex_var [1, 2] (Some \<lparr>Seconds = 1, Nanos = 0\<rparr>))))]))"
    by (simp add: ex_poll_sel ex_parse_ok ex_parse_nil ex_bytes ex_watcher_sel)
  from Watch_bytes_isDeleted [where w = "ex_watcher\<lparr>bytes := [1, 2]\<rparr>" and p = "ex_poll (Inr (ex_var [1, 2] (Some \<lparr>Seconds = 1, Nanos = 0\<rparr>)))" and ps = "[]"
      and vpb = "ex_var [1, 2] (Some \<lparr>Seconds = 1, Nanos = 0\<rparr>)" and ut = 1000000000,
      THEN conjunct2, THEN conjunct2, THEN conjunct2, THEN conjunct1]
  have f5: "bytes (state (Watch (ex_watcher\<lparr>bytes := [1, 2]\<rparr>) [(ex_poll (Inr (ex_var [1, 2] (Some \<lparr>Seconds = 1, Nanos = 0\<rparr>))))])) = [1, 2] \<and> \<not> isDeleted (state (Watch (ex_watcher\<lparr>bytes := [1, 2]\<rparr>) [(ex_poll (Inr (ex_var [1, 2] (Some \<lparr>Seconds = 1, Nanos = 0\<rparr>))))]))"
    by (simp add: ex_poll_sel ex_parse_ok ex_parse_nil ex_bytes ex_watcher_sel)
  from Watch_bytes_isDeleted [where w = "ex_watcher\<lparr>bytes := [1, 2], isDeleted := True\<rparr>" and p = "ex_poll (Inl (StatusError Unavailable ''down''))" and ps = "[]"
      and err = "StatusError Unavailable ''down''",
      THEN conjunct2, THEN conjunct2, THEN conjunct2, THEN conjunct2, THEN conjunct1]
  have f6: "bytes (state (Watch (ex_watcher\<lparr>bytes := [1, 2], isDeleted := True\<rparr>) [(ex_poll (Inl (StatusError Unavailable ''down'')))])) = [1, 2] \<and> isDeleted (state (Watch (ex_watcher\<lparr>bytes := [1, 2], isDeleted := True\<rparr>) [(ex_poll (Inl (StatusError Unavailable ''down'')))]))"
    by (simp add: ex_poll_sel ex_parse_ok ex_parse_nil ex_bytes ex_watcher_sel)
  from Watch_bytes_isDeleted [where w = "ex_watcher\<lparr>bytes := [1, 2]\<rparr>" and p = "ex_poll (Inl (StatusError NotFound ''gone''))" and ps = "[]"
      and err = "StatusError NotFound ''gone''",
      THEN conjunct2, THEN conjunct2, THEN conjunct2, THEN conjunct2, THEN conjunct2, THEN conjunct1]
  have f7: "bytes (state (Watch (ex_watcher\<lparr>bytes := [1, 2]\<rparr>) [(ex_poll (Inl (StatusError NotFound ''gone'')))])) = [1, 2] \<and> isDeleted (state (Watch (ex_watcher\<lparr>bytes := [1, 2]\<rparr>) [(ex_poll (Inl (StatusError NotFound ''gone'')))]))"
    by (simp add: ex_poll_sel ex_parse_ok ex_parse_nil ex_bytes ex_watcher_sel)
  from Watch_bytes_isDeleted [where w = "ex_watcher\<lparr>bytes := [1, 2], isDeleted := True\<rparr>" and p = "ex_poll (Inl (StatusError NotFound ''gone''))" and ps = "[]"
      and err = "StatusError NotFound ''gone''",
      THEN conjunct2, THEN conjunct2, THEN conjunct2, THEN conjunct2, THEN conjunct2, THEN conjunct2, THEN conjunct1]
  have f8: "bytes (state (Watch (ex_watcher\<lparr>bytes := [1, 2], isDeleted := True\<rparr>) [(ex_poll (Inl (StatusError NotFound ''gone'')))])) = [1, 2] \<and> isDeleted (state (Watch (ex_watcher\<lparr>bytes := [1, 2], isDeleted := True\<rparr>) [(ex_poll (Inl (StatusError NotFound ''gone'')))]))"
    by (simp add: ex_poll_sel ex_parse_ok ex_parse_nil ex_bytes ex_watcher_sel)
  from f1 f2 f3 f4 f5 f6 f7 f8 show ?thesis by simp
qed

text \<open>
  Against C2 as stated (after the first fetch exactly one of ``the cached bytes are not
  empty'' and ``the flag is set'' holds): the watcher that \<open>NewVariable\<close> builds fetches the
  bytes \<open>[1, 2]\<close> and returns their value; in its next call the fetch is not found, and
  then the cached bytes are still \<open>[1, 2]\<close> and the flag is set: both hold. And when the
  first fetch of the fresh watcher has empty contents, the cached bytes are empty and the
  flag is not set: neither holds.
\<close>

theorem Watch_not_exclusive_counterexample:
  "NewVariable 0 ex_decode \<lparr>ProjectID = ''p'', Config = ''c'', Variable = ''v''\<rparr> None = Inr ex_watcher
   \<and> returned (Watch ex_watcher [ex_poll (Inr (ex_var [1, 2] (Some \<lparr>Seconds = 1, Nanos = 0\<rparr>)))]) =
       Some (Inr \<lparr>Value = 2, UpdateTime = 1000000000\<rparr>)
   \<and> bytes (state (Watch (state (Watch ex_watcher
         [ex_poll (Inr (ex_var [1, 2] (Some \<lparr>Seconds = 1, Nanos = 0\<rparr>)))]))
         [ex_poll (Inl (StatusError NotFound ''gone''))])) = [1, 2]
   \<and> isDeleted (state (Watch (state (Watch ex_watcher
         [ex_poll (Inr (ex_var [1, 2] (Some \<lparr>Seconds = 1, Nanos = 0\<rparr>)))]))
         [ex_poll (Inl (StatusError NotFound ''gone''))]))
   \<and> bytes (state (Watch ex_watcher [ex_poll (Inr (ex_var [] (Some \<lparr>Seconds = 1, Nanos = 0\<rparr>)))])) = []
   \<and> \<not> isDeleted (state (Watch ex_watcher [ex_poll (Inr (ex_var [] (Some \<lparr>Seconds = 1, Nanos = 0\<rparr>)))]))"
proof -
  let ?good = "ex_var [1, 2] (Some \<lparr>Seconds = 1, Nanos = 0\<rparr>)"
  let ?empty = "ex_var [] (Some \<lparr>Seconds = 1, Nanos = 0\<rparr>)"
  let ?gone = "StatusError NotFound ''gone''"
  let ?w1 = "ex_watcher\<lparr>lastRPCTime := 6, bytes := [1, 2], updateTime := 1000000000, isDeleted := False\<rparr>"
  have new: "NewVariable 0 ex_decode \<lparr>ProjectID = ''p'', Config = ''c'', Variable = ''v''\<rparr> None =
      Inr ex_watcher"
    by (simp add: NewVariable_def ex_watcher_def defaultWaitTimeout_def Minute_def wrap64_def
        Add_def String_def)
  have 1: "state (Watch ex_watcher [ex_poll (Inr ?good)]) = ?w1
      \<and> returned (Watch ex_watcher [ex_poll (Inr ?good)]) = Some (Inr \<lparr>Value = 2, UpdateTime = 1000000000\<rparr>)"
    using Watch_change [of "ex_poll (Inr ?good)" ex_watcher ?good 1000000000 "[]"]
    by (simp add: ex_poll_sel ex_parse_ok ex_bytes ex_watcher_sel ex_decode_def)
  have 2: "state (Watch ?w1 [ex_poll (Inl ?gone)]) = ?w1\<lparr>lastRPCTime := 6, isDeleted := True, updateTime := 7\<rparr>"
    using Watch_first_not_found [of "ex_poll (Inl ?gone)" ?w1 ?gone "[]"]
    by (simp add: ex_poll_sel)
  have 3: "state (Watch ex_watcher [ex_poll (Inr ?empty)]) = ex_watcher\<lparr>lastRPCTime := 6\<rparr>"
    using Watch_unchanged [of "ex_poll (Inr ?empty)" ex_watcher ?empty 1000000000 "[]"]
    by (simp add: ex_poll_sel ex_parse_ok ex_bytes ex_watcher_sel)
  from new 1 2 3 show ?thesis
    by (simp add: ex_watcher_sel)
qed

subsection \<open>No repeated notification\<close>

lemma Watch_same_bytes:
  assumes "ctxDone p = None" and "getVariable p (name w) = Inr vpb" and "\<not> isDeleted w"
    and "bytesFromProto vpb = bytes w"
  shows "\<forall>v. returned (Watch w [p]) \<noteq> Some (Inr v)"
    and "parseUpdateTime vpb = Inr ut \<Longrightarrow>
           returned (Watch w [p]) = None
           \<and> returned (Watch w (p # ps)) = returned (Watch (w\<lparr>lastRPCTime := rpcNow p\<rparr>) ps)
           \<and> state (Watch w (p # ps)) = state (Watch (w\<lparr>lastRPCTime := rpcNow p\<rparr>) ps)"
    and "parseUpdateTime vpb = Inl perr \<Longrightarrow> returned (Watch w (p # ps)) = Some (Inl perr)"
proof -
  show "\<forall>v. returned (Watch w [p]) \<noteq> Some (Inr v)"
  proof (cases "parseUpdateTime vpb")
    case (Inl err)
    with assms Watch_timestamp_error [of p w vpb err "[]"] show ?thesis by simp
  next
    case (Inr ut)
    with assms Watch_unchanged [of p w vpb ut "[]"] show ?thesis by simp
  qed
  show "returned (Watch w [p]) = None
           \<and> returned (Watch w (p # ps)) = returned (Watch (w\<lparr>lastRPCTime := rpcNow p\<rparr>) ps)
           \<and> state (Watch w (p # ps)) = state (Watch (w\<lparr>lastRPCTime := rpcNow p\<rparr>) ps)"
    if "parseUpdateTime vpb = Inr ut"
    using that assms Watch_unchanged [of p w vpb ut "[]"] Watch_unchanged [of p w vpb ut ps]
    by simp
  show "returned (Watch w (p # ps)) = Some (Inl perr)" if "parseUpdateTime vpb = Inl perr"
    using that assms Watch_timestamp_error [of p w vpb perr ps] by simp
qed

text \<open>
  Claim C4, as the code has it. A pass whose fetch succeeds with the bytes that are cached,
  the flag not set, returns no value: with a well-formed timestamp the call goes on with
  the next pass (only \<open>lastRPCTime\<close> is set), with a malformed one it returns the error of
  the timestamp. After any pass whose fetch succeeded with a well-formed timestamp the flag
  is not set and the fetched bytes are cached, so a second successful fetch with the same
  bytes returns no value in the same way. Hence a call that returns a value was entered
  deleted or leaves cached bytes that differ from those it was entered with; the value is
  the decoding of the bytes it leaves.
\<close>

theorem Watch_no_repeat:
  "(ctxDone p = None \<and> getVariable p (name w) = Inr vpb \<and> \<not> isDeleted w
      \<and> bytesFromProto vpb = bytes w \<longrightarrow>
      (\<forall>v. returned (Watch w [p]) \<noteq> Some (Inr v)))
   \<and> (ctxDone p = None \<and> getVariable p (name w) = Inr vpb \<and> \<not> isDeleted w
      \<and> bytesFromProto vpb = bytes w \<and> parseUpdateTime vpb = Inr ut \<longrightarrow>
      returned (Watch w [p]) = None
      \<and> returned (Watch w (p # ps)) = returned (Watch (w\<lparr>lastRPCTime := rpcNow p\<rparr>) ps)
      \<and> state (Watch w (p # ps)) = state (Watch (w\<lparr>lastRPCTime := rpcNow p\<rparr>) ps))
   \<and> (ctxDone p = None \<and> getVariable p (name w) = Inr vpb \<and> \<not> isDeleted w
      \<and> bytesFromProto vpb = bytes w \<and> parseUpdateTime vpb = Inl perr \<longrightarrow>
      returned (Watch w (p # ps)) = Some (Inl perr))
   \<and> (ctxDone p1 = None \<and> getVariable p1 (name w) = Inr v1 \<and> parseUpdateTime v1 = Inr t1
      \<and> ctxDone p2 = None \<and> getVariable p2 (name w) = Inr v2
      \<and> bytesFromProto v2 = bytesFromProto v1 \<longrightarrow>
      \<not> isDeleted (state (Watch w [p1]))
      \<and> bytes (state (Watch w [p1])) = bytesFromProto v1
      \<and> (\<forall>v. returned (Watch (state (Watch w [p1])) [p2]) \<noteq> Some (Inr v)))
   \<and> (ctxDone p1 = None \<and> getVariable p1 (name w) = Inr v1 \<and> parseUpdateTime v1 = Inr t1
      \<and> ctxDone p2 = None \<and> getVariable p2 (name w) = Inr v2
      \<and> bytesFromProto v2 = bytesFromProto v1 \<and> parseUpdateTime v2 = Inr t2 \<longrightarrow>
      returned (Watch (state (Watch w [p1])) [p2]) = None
      \<and> returned (Watch (state (Watch w [p1])) (p2 # ps)) =
          returned (Watch ((state (Watch w [p1]))\<lparr>lastRPCTime := rpcNow p2\<rparr>) ps)
      \<and> state (Watch (state (Watch w [p1])) (p2 # ps)) =
          state (Watch ((state (Watch w [p1]))\<lparr>lastRPCTime := rpcNow p2\<rparr>) ps))
   \<and> (ctxDone p1 = None \<and> getVariable p1 (name w) = Inr v1 \<and> parseUpdateTime v1 = Inr t1
      \<and> ctxDone p2 = None \<and> getVariable p2 (name w) = Inr v2
      \<and> bytesFromProto v2 = bytesFromProto v1 \<and> parseUpdateTime v2 = Inl perr2 \<longrightarrow>
      returned (Watch (state (Watch w [p1])) (p2 # ps)) = Some (Inl perr2))
   \<and> (returned (Watch w qs) = Some (Inr v) \<longrightarrow>
      (isDeleted w \<or> bytes (state (Watch w qs)) \<noteq> bytes w)
      \<and> \<not> isDeleted (state (Watch w qs))
      \<and> decoder w (bytes (state (Watch w qs))) = Inr (Value v))"
proof -
  let ?w' = "state (Watch w [p1])"
  have pair: "ctxDone p2 = None \<and> getVariable p2 (name ?w') = Inr v2 \<and> \<not> isDeleted ?w'
      \<and> bytesFromProto v2 = bytes ?w' \<and> bytes ?w' = bytesFromProto v1"
    if "ctxDone p1 = None \<and> getVariable p1 (name w) = Inr v1 \<and> parseUpdateTime v1 = Inr t1
      \<and> ctxDone p2 = None \<and> getVariable p2 (name w) = Inr v2
      \<and> bytesFromProto v2 = bytesFromProto v1"
    using that Watch_single_fetched [of p1 w v1 t1] Watch_keeps [of w "[p1]"] by simp
  show ?thesis
  proof (intro conjI impI)
    assume "ctxDone p = None \<and> getVariable p (name w) = Inr vpb \<and> \<not> isDeleted w
        \<and> bytesFromProto vpb = bytes w"
    then show "\<forall>v. returned (Watch w [p]) \<noteq> Some (Inr v)"
      using Watch_same_bytes(1) [of p w vpb] by simp
  next
    assume "ctxDone p = None \<and> getVariable p (name w) = Inr vpb \<and> \<not> isDeleted w
        \<and> bytesFromProto vpb = bytes w \<and> parseUpdateTime vpb = Inr ut"
    then show "returned (Watch w [p]) = None"
      and "returned (Watch w (p # ps)) = returned (Watch (w\<lparr>lastRPCTime := rpcNow p\<rparr>) ps)"
      and "state (Watch w (p # ps)) = state (Watch (w\<lparr>lastRPCTime := rpcNow p\<rparr>) ps)"
      using Watch_same_bytes(2) [of p w vpb ut ps] by simp_all
  next
    assume "ctxDone p = None \<and> getVariable p (name w) = Inr vpb \<and> \<not> isDeleted w
        \<and> bytesFromProto vpb = bytes w \<and> parseUpdateTime vpb = Inl perr"
    then show "returned (Watch w (p # ps)) = Some (Inl perr)"
      using Watch_same_bytes(3) [of p w vpb perr ps] by simp
  next
    assume h: "ctxDone p1 = None \<and> getVariable p1 (name w) = Inr v1 \<and> parseUpdateTime v1 = Inr t1
        \<and> ctxDone p2 = None \<and> getVariable p2 (name w) = Inr v2
        \<and> bytesFromProto v2 = bytesFromProto v1"
    from pair [OF h] show "\<not> isDeleted ?w'" and "bytes ?w' = bytesFromProto v1"
      by simp_all
    from pair [OF h] show "\<forall>v. returned (Watch ?w' [p2]) \<noteq> Some (Inr v)"
      using Watch_same_bytes(1) [of p2 ?w' v2] by simp
  next
    assume h: "ctxDone p1 = None \<and> getVariable p1 (name w) = Inr v1 \<and> parseUpdateTime v1 = Inr t1
        \<and> ctxDone p2 = None \<and> getVariable p2 (name w) = Inr v2
        \<and> bytesFromProto v2 = bytesFromProto v1 \<and> parseUpdateTime v2 = Inr t2"
    then have "ctxDone p2 = None \<and> getVariable p2 (name ?w') = Inr v2 \<and> \<not> isDeleted ?w'
        \<and> bytesFromProto v2 = bytes ?w' \<and> bytes ?w' = bytesFromProto v1"
      by (intro pair) simp
    with h show "returned (Watch ?w' [p2]) = None"
      and "returned (Watch ?w' (p2 # ps)) = returned (Watch (?w'\<lparr>lastRPCTime := rpcNow p2\<rparr>) ps)"
      and "state (Watch ?w' (p2 # ps)) = state (Watch (?w'\<lparr>lastRPCTime := rpcNow p2\<rparr>) ps)"
      using Watch_same_bytes(2) [of p2 ?w' v2 t2 ps] by simp_all
  next
    assume h: "ctxDone p1 = None \<and> getVariable p1 (name w) = Inr v1 \<and> parseUpdateTime v1 = Inr t1
        \<and> ctxDone p2 = None \<and> getVariable p2 (name w) = Inr v2
        \<and> bytesFromProto v2 = bytesFromProto v1 \<and> parseUpdateTime v2 = Inl perr2"
    then have "ctxDone p2 = None \<and> getVariable p2 (name ?w') = Inr v2 \<and> \<not> isDeleted ?w'
        \<and> bytesFromProto v2 = bytes ?w' \<and> bytes ?w' = bytesFromProto v1"
      by (intro pair) simp
    with h show "returned (Watch ?w' (p2 # ps)) = Some (Inl perr2)"
      using Watch_same_bytes(3) [of p2 ?w' v2 perr2 ps] by simp
  next
    assume r: "returned (Watch w qs) = Some (Inr v)"
    with Watch_frame [of w qs]
    show "isDeleted w \<or> bytes (state (Watch w qs)) \<noteq> bytes w"
      and "\<not> isDeleted (state (Watch w qs))"
      and "decoder w (bytes (state (Watch w qs))) = Inr (Value v)"
      by auto
  qed
qed

theorem Watch_no_repeat_witness:
  "returned (Watch (ex_watcher\<lparr>bytes := [1, 2]\<rparr>) [ex_poll (Inr (ex_var [1, 2] (Some \<lparr>Seconds = 1, Nanos = 0\<rparr>)))]) = None
   \<and> returned (Watch (ex_watcher\<lparr>bytes := [1, 2]\<rparr>) [ex_poll (Inr (ex_var [1, 2] None))]) =
       Some (Inl (InvalidTimestamp ''projects/p/configs/c/variables/v'' NilTimestamp))
   \<and> \<not> isDeleted (state (Watch ex_watcher [ex_poll (Inr (ex_var [1, 2] (Some \<lparr>Seconds = 1, Nanos = 0\<rparr>)))]))
   \<and> bytes (state (Watch ex_watcher [ex_poll (Inr (ex_var [1, 2] (Some \<lparr>Seconds = 1, Nanos = 0\<rparr>)))])) = [1, 2]
   \<and> returned (Watch (state (Watch ex_watcher [ex_poll (Inr (ex_var [1, 2] (Some \<lparr>Seconds = 1, Nanos = 0\<rparr>)))]))
       [ex_poll (Inr (ex_var [1, 2] (Some \<lparr>Seconds = 1, Nanos = 0\<rparr>)))]) = None
   \<and> returned (Watch (state (Watch ex_watcher [ex_poll (Inr (ex_var [1, 2] (Some \<lparr>Seconds = 1, Nanos = 0\<rparr>)))]))
       [ex_poll (Inr (ex_var [1, 2] None))]) =
       Some (Inl (InvalidTimestamp ''projects/p/configs/c/variables/v'' NilTimestamp))
   \<and> returned (Watch ex_watcher [ex_poll (Inr (ex_var [1, 2] (Some \<lparr>Seconds = 1, Nanos = 0\<rparr>)))]) =
       Some (Inr \<lparr>Value = 2, UpdateTime = 1000000000\<rparr>)
   \<and> bytes (state (Watch ex_watcher [ex_poll (Inr (ex_var [1, 2] (Some \<lparr>Seconds = 1, Nanos = 0\<rparr>)))])) \<noteq> bytes ex_watcher"
proof -
  let ?good = "ex_var [1, 2] (Some \<lparr>Seconds = 1, Nanos = 0\<rparr>)"
  let ?bad = "ex_var [1, 2] None"
  let ?p = "ex_poll (Inr ?good)"
  let ?b = "ex_poll (Inr ?bad)"
  let ?w = "ex_watcher\<lparr>bytes := [1, 2]\<rparr>"
  let ?v = "\<lparr>Value = 2 :: nat, UpdateTime = 1000000000\<rparr>"
  let ?e = "InvalidTimestamp ''projects/p/configs/c/variables/v'' NilTimestamp"
  have ret: "returned (Watch ex_watcher [?p]) = Some (Inr ?v)"
    using Watch_change [of ?p ex_watcher ?good 1000000000 "[]"]
    by (simp add: ex_poll_sel ex_parse_ok ex_bytes ex_watcher_sel ex_decode_def)
  from Watch_no_repeat [where p = ?p and w = ?w and vpb = ?good and ut = 1000000000
      and ps = "[]", THEN conjunct2, THEN conjunct1]
  have 1: "returned (Watch ?w [?p]) = None"
    by (simp add: ex_poll_sel ex_parse_ok ex_bytes ex_watcher_sel)
  from Watch_no_repeat [where p = ?b and w = ?w and vpb = ?bad and perr = ?e
      and ps = "[]", THEN conjunct2, THEN conjunct2, THEN conjunct1]
  have 2: "returned (Watch ?w [?b]) = Some (Inl ?e)"
    by (simp add: ex_poll_sel ex_parse_nil ex_bytes ex_watcher_sel)
  from Watch_no_repeat [where w = ex_watcher and ?p1.0 = ?p and ?v1.0 = ?good
      and ?t1.0 = 1000000000 and ?p2.0 = ?p and ?v2.0 = ?good, THEN conjunct2, THEN conjunct2, THEN conjunct2, THEN conjunct1]
  have 3: "\<not> isDeleted (state (Watch ex_watcher [?p]))
      \<and> bytes (state (Watch ex_watcher [?p])) = [1, 2]"
    by (simp add: ex_poll_sel ex_parse_ok ex_bytes)
  from Watch_no_repeat [where w = ex_watcher and ?p1.0 = ?p and ?v1.0 = ?good
      and ?t1.0 = 1000000000 and ?p2.0 = ?p and ?v2.0 = ?good and ?t2.0 = 1000000000
      and ps = "[]", THEN conjunct2, THEN conjunct2, THEN conjunct2, THEN conjunct2, THEN conjunct1]
  have 4: "returned (Watch (state (Watch ex_watcher [?p])) [?p]) = None"
    by (simp add: ex_poll_sel ex_parse_ok ex_bytes)
  from Watch_no_repeat [where w = ex_watcher and ?p1.0 = ?p and ?v1.0 = ?good
      and ?t1.0 = 1000000000 and ?p2.0 = ?b and ?v2.0 = ?bad and ?perr2.0 = ?e
      and ps = "[]", THEN conjunct2, THEN conjunct2, THEN conjunct2, THEN conjunct2, THEN conjunct2, THEN conjunct1]
  have 5: "returned (Watch (state (Watch ex_watcher [?p])) [?b]) = Some (Inl ?e)"
    by (simp add: ex_poll_sel ex_parse_ok ex_parse_nil ex_bytes)
  from Watch_no_repeat [where w = ex_watcher and qs = "[?p]" and v = ?v, THEN conjunct2, THEN conjunct2, THEN conjunct2, THEN conjunct2, THEN conjunct2, THEN conjunct2] ret
  have 6: "bytes (state (Watch ex_watcher [?p])) \<noteq> bytes ex_watcher"
    by (simp add: ex_watcher_sel)
  from ret 1 2 3 4 5 6 show ?thesis by simp
qed

text \<open>
  Against C4 as stated (for every pair of successive successful fetches with equal bytes and
  the flag not set, \<open>Watch\<close> returns no value): the fresh watcher fetches the bytes \<open>[1, 2]\<close>
  with a nil timestamp, and \<open>Watch\<close> returns the error of the timestamp with nothing cached
  and the flag not set; the next fetch has the same bytes \<open>[1, 2]\<close>, with a well-formed
  timestamp, and \<open>Watch\<close> returns their value.
\<close>

theorem Watch_repeat_after_bad_timestamp_counterexample:
  "bytesFromProto (ex_var [1, 2] None) = bytesFromProto (ex_var [1, 2] (Some \<lparr>Seconds = 1, Nanos = 0\<rparr>))
   \<and> returned (Watch ex_watcher [ex_poll (Inr (ex_var [1, 2] None))]) =
       Some (Inl (InvalidTimestamp ''projects/p/configs/c/variables/v'' NilTimestamp))
   \<and> \<not> isDeleted (state (Watch ex_watcher [ex_poll (Inr (ex_var [1, 2] None))]))
   \<and> returned (Watch (state (Watch ex_watcher [ex_poll (Inr (ex_var [1, 2] None))]))
       [ex_poll (Inr (ex_var [1, 2] (Some \<lparr>Seconds = 1, Nanos = 0\<rparr>)))]) =
       Some (Inr \<lparr>Value = 2, UpdateTime = 1000000000\<rparr>)"
proof -
  let ?good = "ex_var [1, 2] (Some \<lparr>Seconds = 1, Nanos = 0\<rparr>)"
  let ?bad = "ex_var [1, 2] None"
  let ?w1 = "ex_watcher\<lparr>lastRPCTime := 6\<rparr>"
  have 1: "state (Watch ex_watcher [ex_poll (Inr ?bad)]) = ?w1
      \<and> returned (Watch ex_watcher [ex_poll (Inr ?bad)]) =
          Some (Inl (InvalidTimestamp ''projects/p/configs/c/variables/v'' NilTimestamp))"
    using Watch_timestamp_error [of "ex_poll (Inr ?bad)" ex_watcher ?bad _ "[]"]
    by (simp add: ex_poll_sel ex_parse_nil)
  have 2: "returned (Watch ?w1 [ex_poll (Inr ?good)]) =
      Some (Inr \<lparr>Value = 2, UpdateTime = 1000000000\<rparr>)"
    using Watch_change [of "ex_poll (Inr ?good)" ?w1 ?good 1000000000 "[]"]
    by (simp add: ex_poll_sel ex_parse_ok ex_bytes ex_watcher_sel ex_decode_def)
  from 1 2 show ?thesis
    by (simp add: ex_bytes ex_watcher_sel)
qed

subsection \<open>Deletion\<close>

lemma Watch_all_not_found:
  "isDeleted w \<Longrightarrow>
   \<forall>q\<in>set qs. ctxDone q = None
       \<and> (\<exists>e. getVariable q (name w) = Inl e \<and> FromError e = (NotFound, True)) \<Longrightarrow>
     returned (Watch w qs) = None \<and> isDeleted (state (Watch w qs))
     \<and> bytes (state (Watch w qs)) = bytes w \<and> updateTime (state (Watch w qs)) = updateTime w"
proof (induction qs arbitrary: w)
  case Nil
  then show ?case by simp
next
  case (Cons q qs)
  let ?w1 = "w\<lparr>lastRPCTime := rpcNow q\<rparr>"
  from Cons.prems obtain e where q: "ctxDone q = None" "getVariable q (name w) = Inl e"
    "FromError e = (NotFound, True)"
    by auto
  from Cons.prems have "isDeleted ?w1"
    and "\<forall>q\<in>set qs. ctxDone q = None
       \<and> (\<exists>e. getVariable q (name ?w1) = Inl e \<and> FromError e = (NotFound, True))"
    by simp_all
  from Cons.IH [OF this] Watch_repeated_not_found [OF q \<open>isDeleted w\<close>, of qs]
  show ?case by simp
qed

text \<open>
  Claim C5. In a pass whose fetch fails with a not-found error: when the watcher is not
  marked deleted, \<open>Watch\<close> sets the flag, sets \<open>updateTime\<close> to the clock read at that
  moment and returns the not-found error; any number of not-found answers after that are
  passed over without a return. When the watcher is already marked deleted, the pass
  returns nothing and the call goes on with the next pass.
\<close>

theorem Watch_not_found:
  assumes "ctxDone p = None" and "getVariable p (name w) = Inl err"
    and "FromError err = (NotFound, True)"
  shows "(\<not> isDeleted w \<longrightarrow>
            returned (Watch w (p # ps)) = Some (Inl (RPCError err))
            \<and> state (Watch w (p # ps)) =
                w\<lparr>lastRPCTime := rpcNow p, isDeleted := True, updateTime := deleteNow p\<rparr>
            \<and> (\<forall>qs. (\<forall>q\<in>set qs. ctxDone q = None
                      \<and> (\<exists>e. getVariable q (name w) = Inl e \<and> FromError e = (NotFound, True)))
                  \<longrightarrow> returned (Watch (state (Watch w (p # ps))) qs) = None))
       \<and> (isDeleted w \<longrightarrow>
            returned (Watch w [p]) = None
            \<and> returned (Watch w (p # ps)) = returned (Watch (w\<lparr>lastRPCTime := rpcNow p\<rparr>) ps)
            \<and> state (Watch w (p # ps)) = state (Watch (w\<lparr>lastRPCTime := rpcNow p\<rparr>) ps))"
proof (intro conjI impI allI)
  assume nd: "\<not> isDeleted w"
  let ?w' = "w\<lparr>lastRPCTime := rpcNow p, isDeleted := True, updateTime := deleteNow p\<rparr>"
  from Watch_first_not_found [OF assms nd, of ps]
  show ret: "returned (Watch w (p # ps)) = Some (Inl (RPCError err))"
    and st: "state (Watch w (p # ps)) = ?w'"
    by simp_all
  fix qs :: "poll list"
  assume "\<forall>q\<in>set qs. ctxDone q = None
             \<and> (\<exists>e. getVariable q (name w) = Inl e \<and> FromError e = (NotFound, True))"
  then have "\<forall>q\<in>set qs. ctxDone q = None
             \<and> (\<exists>e. getVariable q (name ?w') = Inl e \<and> FromError e = (NotFound, True))"
    by simp
  with Watch_all_not_found [of ?w' qs] st
  show "returned (Watch (state (Watch w (p # ps))) qs) = None" by simp
next
  assume d: "isDeleted w"
  from Watch_repeated_not_found [OF assms d, of "[]"]
  show "returned (Watch w [p]) = None" by simp
  from Watch_repeated_not_found [OF assms d, of ps]
  show "returned (Watch w (p # ps)) = returned (Watch (w\<lparr>lastRPCTime := rpcNow p\<rparr>) ps)"
    and "state (Watch w (p # ps)) = state (Watch (w\<lparr>lastRPCTime := rpcNow p\<rparr>) ps)"
    by simp_all
qed

theorem Watch_not_found_witness:
  "returned (Watch ex_watcher [ex_poll (Inl (StatusError NotFound ''gone''))]) =
     Some (Inl (RPCError (StatusError NotFound ''gone'')))
   \<and> state (Watch ex_watcher [ex_poll (Inl (StatusError NotFound ''gone''))]) =
     ex_watcher\<lparr>lastRPCTime := 6, isDeleted := True, updateTime := 7\<rparr>
   \<and> returned (Watch (state (Watch ex_watcher [ex_poll (Inl (StatusError NotFound ''gone''))]))
       [ex_poll (Inl (StatusError NotFound ''gone'')), ex_poll (Inl (StatusError NotFound ''gone''))])
     = None
   \<and> returned (Watch (ex_watcher\<lparr>isDeleted := True\<rparr>) [ex_poll (Inl (StatusError NotFound ''gone''))])
     = None"
proof -
  let ?gone = "StatusError NotFound ''gone''"
  let ?p = "ex_poll (Inl ?gone)"
  let ?d = "ex_watcher\<lparr>isDeleted := True\<rparr>"
  have poll: "ctxDone ?p = None" "getVariable ?p n = Inl ?gone" "FromError ?gone = (NotFound, True)"
    for n
    by (simp_all add: ex_poll_sel)
  note fresh = Watch_not_found [where w = ex_watcher and ps = "[]", OF poll]
  note deleted = Watch_not_found [where w = ?d and ps = "[]", OF poll]
  have nd: "\<not> isDeleted ex_watcher" by (simp add: ex_watcher_sel)
  note f = fresh [THEN conjunct1, rule_format, OF nd]
  from f
  have 1: "returned (Watch ex_watcher [?p]) = Some (Inl (RPCError ?gone))"
    and 2: "state (Watch ex_watcher [?p]) = ex_watcher\<lparr>lastRPCTime := 6, isDeleted := True, updateTime := 7\<rparr>"
    by (simp_all add: ex_poll_sel)
  from f [THEN conjunct2, THEN conjunct2, rule_format, of "[?p, ?p]"]
  have 3: "returned (Watch (state (Watch ex_watcher [?p])) [?p, ?p]) = None"
    by (simp add: ex_poll_sel)
  from deleted [THEN conjunct2, rule_format]
  have 4: "returned (Watch ?d [?p]) = None"
    by simp
  from 1 2 3 4 show ?thesis by simp
qed

text \<open>
  Claim C6, as the code has it. When the flag is set, a pass whose fetch succeeds with a
  well-formed timestamp stores the fetched bytes and their update time, clears the flag,
  decodes the bytes and returns what the decoder gives: the value with the update time, or
  the decoder's error. The bytes are not compared: the same holds when they are the cached
  ones. When the timestamp is malformed, the pass returns the error of the timestamp and
  leaves the flag set: only \<open>lastRPCTime\<close> changes.
\<close>

theorem Watch_recovers_from_deletion:
  assumes "isDeleted w" and "ctxDone p = None" and "getVariable p (name w) = Inr vpb"
  shows "(parseUpdateTime vpb = Inr ut \<longrightarrow>
            state (Watch w (p # ps)) =
              w\<lparr>lastRPCTime := rpcNow p, bytes := bytesFromProto vpb, updateTime := ut,
                isDeleted := False\<rparr>
            \<and> \<not> isDeleted (state (Watch w (p # ps)))
            \<and> returned (Watch w (p # ps)) =
                Some (case decoder w (bytesFromProto vpb) of
                        Inl e \<Rightarrow> Inl (DecodeError e)
                      | Inr val \<Rightarrow> Inr \<lparr>Value = val, UpdateTime = ut\<rparr>))
         \<and> (parseUpdateTime vpb = Inr ut \<and> decoder w (bytesFromProto vpb) = Inr val \<longrightarrow>
            returned (Watch w (p # ps)) = Some (Inr \<lparr>Value = val, UpdateTime = ut\<rparr>))
         \<and> (parseUpdateTime vpb = Inr ut \<and> decoder w (bytesFromProto vpb) = Inl derr \<longrightarrow>
            returned (Watch w (p # ps)) = Some (Inl (DecodeError derr)))
         \<and> (parseUpdateTime vpb = Inl perr \<longrightarrow>
            state (Watch w (p # ps)) = w\<lparr>lastRPCTime := rpcNow p\<rparr>
            \<and> isDeleted (state (Watch w (p # ps)))
            \<and> returned (Watch w (p # ps)) = Some (Inl perr))"
proof (intro conjI impI)
  assume ut: "parseUpdateTime vpb = Inr ut"
  from Watch_change [OF assms(2,3) ut, of ps] assms(1)
  show "state (Watch w (p # ps)) =
          w\<lparr>lastRPCTime := rpcNow p, bytes := bytesFromProto vpb, updateTime := ut,
            isDeleted := False\<rparr>"
    and "\<not> isDeleted (state (Watch w (p # ps)))"
    and "returned (Watch w (p # ps)) =
          Some (case decoder w (bytesFromProto vpb) of
                  Inl e \<Rightarrow> Inl (DecodeError e)
                | Inr val \<Rightarrow> Inr \<lparr>Value = val, UpdateTime = ut\<rparr>)"
    by simp_all
next
  assume "parseUpdateTime vpb = Inr ut \<and> decoder w (bytesFromProto vpb) = Inr val"
  with Watch_change [OF assms(2,3), of ut ps] assms(1)
  show "returned (Watch w (p # ps)) = Some (Inr \<lparr>Value = val, UpdateTime = ut\<rparr>)"
    by simp
next
  assume "parseUpdateTime vpb = Inr ut \<and> decoder w (bytesFromProto vpb) = Inl derr"
  with Watch_change [OF assms(2,3), of ut ps] assms(1)
  show "returned (Watch w (p # ps)) = Some (Inl (DecodeError derr))"
    by simp
next
  assume "parseUpdateTime vpb = Inl perr"
  from Watch_timestamp_error [OF assms(2,3) this, of ps] assms(1)
  show "state (Watch w (p # ps)) = w\<lparr>lastRPCTime := rpcNow p\<rparr>"
    and "isDeleted (state (Watch w (p # ps)))"
    and "returned (Watch w (p # ps)) = Some (Inl perr)"
    by simp_all
qed

theorem Watch_recovers_from_deletion_witness:
  "returned (Watch (ex_watcher\<lparr>bytes := [1, 2], isDeleted := True\<rparr>)
       [ex_poll (Inr (ex_var [1, 2] (Some \<lparr>Seconds = 1, Nanos = 0\<rparr>)))]) =
     Some (Inr \<lparr>Value = 2, UpdateTime = 1000000000\<rparr>)
   \<and> \<not> isDeleted (state (Watch (ex_watcher\<lparr>bytes := [1, 2], isDeleted := True\<rparr>)
       [ex_poll (Inr (ex_var [1, 2] (Some \<lparr>Seconds = 1, Nanos = 0\<rparr>)))]))
   \<and> bytes (state (Watch (ex_watcher\<lparr>bytes := [1, 2], isDeleted := True\<rparr>)
       [ex_poll (Inr (ex_var [1, 2] (Some \<lparr>Seconds = 1, Nanos = 0\<rparr>)))])) = [1, 2]
   \<and> returned (Watch (ex_watcher\<lparr>bytes := [1, 2], isDeleted := True\<rparr>)
       [ex_poll (Inr (ex_var [7] (Some \<lparr>Seconds = 1, Nanos = 0\<rparr>)))]) = Some (Inl (DecodeError ''short''))
   \<and> \<not> isDeleted (state (Watch (ex_watcher\<lparr>bytes := [1, 2], isDeleted := True\<rparr>)
       [ex_poll (Inr (ex_var [7] (Some \<lparr>Seconds = 1, Nanos = 0\<rparr>)))]))
   \<and> returned (Watch (ex_watcher\<lparr>bytes := [1, 2], isDeleted := True\<rparr>)
       [ex_poll (Inr (ex_var [1, 2] None))]) =
     Some (Inl (InvalidTimestamp ''projects/p/configs/c/variables/v'' NilTimestamp))
   \<and> isDeleted (state (Watch (ex_watcher\<lparr>bytes := [1, 2], isDeleted := True\<rparr>)
       [ex_poll (Inr (ex_var [1, 2] None))]))"
proof -
  let ?good = "ex_var [1, 2] (Some \<lparr>Seconds = 1, Nanos = 0\<rparr>)"
  let ?short = "ex_var [7] (Some \<lparr>Seconds = 1, Nanos = 0\<rparr>)"
  let ?bad = "ex_var [1, 2] None"
  let ?w = "ex_watcher\<lparr>bytes := [1, 2], isDeleted := True\<rparr>"
  let ?e = "InvalidTimestamp ''projects/p/configs/c/variables/v'' NilTimestamp"
  have pre: "isDeleted ?w" "ctxDone (ex_poll r) = None"
    "getVariable (ex_poll r) (name ?w) = r" for r
    by (simp_all add: ex_poll_sel)
  have dec: "decoder ex_watcher [1, 2] = Inr 2" "decoder ex_watcher [7] = Inl ''short''"
    by (simp_all add: ex_watcher_sel ex_decode_def)
  note good = Watch_recovers_from_deletion [where w = ?w and p = "ex_poll (Inr ?good)"
      and vpb = ?good and ps = "[]" and ut = 1000000000 and val = 2, OF pre]
  note short = Watch_recovers_from_deletion [where w = ?w and p = "ex_poll (Inr ?short)"
      and vpb = ?short and ps = "[]" and ut = 1000000000 and derr = "''short''", OF pre]
  note bad = Watch_recovers_from_deletion [where w = ?w and p = "ex_poll (Inr ?bad)"
      and vpb = ?bad and ps = "[]" and perr = ?e, OF pre]
  from good [THEN conjunct1] have 1: "\<not> isDeleted (state (Watch ?w [ex_poll (Inr ?good)]))
      \<and> bytes (state (Watch ?w [ex_poll (Inr ?good)])) = [1, 2]"
    by (simp add: ex_parse_ok ex_bytes)
  from good [THEN conjunct2, THEN conjunct1]
  have 2: "returned (Watch ?w [ex_poll (Inr ?good)]) =
      Some (Inr \<lparr>Value = 2, UpdateTime = 1000000000\<rparr>)"
    by (simp add: ex_parse_ok ex_bytes dec)
  from short [THEN conjunct1] have 3: "\<not> isDeleted (state (Watch ?w [ex_poll (Inr ?short)]))"
    by (simp add: ex_parse_ok ex_bytes)
  from short [THEN conjunct2, THEN conjunct2, THEN conjunct1]
  have 4: "returned (Watch ?w [ex_poll (Inr ?short)]) = Some (Inl (DecodeError ''short''))"
    by (simp add: ex_parse_ok ex_bytes dec)
  from bad [THEN conjunct2, THEN conjunct2, THEN conjunct2]
  have 5: "returned (Watch ?w [ex_poll (Inr ?bad)]) = Some (Inl ?e)
      \<and> isDeleted (state (Watch ?w [ex_poll (Inr ?bad)]))"
    by (simp add: ex_parse_nil)
  from 1 2 3 4 5 show ?thesis by simp
qed

text \<open>
  Against C6 as stated (with the flag set, every next successful fetch is decoded and
  returned and clears the flag): the fresh watcher is told that the variable is not found,
  which sets the flag; the next fetch succeeds with the bytes \<open>[1, 2]\<close> and a nil timestamp.
  \<open>Watch\<close> returns the error of the timestamp, no value, and the flag is still set.
\<close>

theorem Watch_deleted_bad_timestamp_counterexample:
  "isDeleted (state (Watch ex_watcher [ex_poll (Inl (StatusError NotFound ''gone''))]))
   \<and> returned (Watch (state (Watch ex_watcher [ex_poll (Inl (StatusError NotFound ''gone''))]))
       [ex_poll (Inr (ex_var [1, 2] None))]) =
     Some (Inl (InvalidTimestamp ''projects/p/configs/c/variables/v'' NilTimestamp))
   \<and> isDeleted (state (Watch (state (Watch ex_watcher [ex_poll (Inl (StatusError NotFound ''gone''))]))
       [ex_poll (Inr (ex_var [1, 2] None))]))
   \<and> bytes (state (Watch (state (Watch ex_watcher [ex_poll (Inl (StatusError NotFound ''gone''))]))
       [ex_poll (Inr (ex_var [1, 2] None))])) = []"
proof -
  let ?gone = "StatusError NotFound ''gone''"
  let ?bad = "ex_var [1, 2] None"
  let ?d = "ex_watcher\<lparr>lastRPCTime := 6, isDeleted := True, updateTime := 7\<rparr>"
  have 1: "state (Watch ex_watcher [ex_poll (Inl ?gone)]) = ?d"
    using Watch_first_not_found [of "ex_poll (Inl ?gone)" ex_watcher ?gone "[]"]
    by (simp add: ex_poll_sel ex_watcher_sel)
  have 2: "state (Watch ?d [ex_poll (Inr ?bad)]) = ?d\<lparr>lastRPCTime := 6\<rparr>
      \<and> returned (Watch ?d [ex_poll (Inr ?bad)]) =
          Some (Inl (InvalidTimestamp ''projects/p/configs/c/variables/v'' NilTimestamp))"
    using Watch_timestamp_error [of "ex_poll (Inr ?bad)" ?d ?bad _ "[]"]
    by (simp add: ex_poll_sel ex_parse_nil)
  from 1 2 show ?thesis
    by (simp add: ex_watcher_sel)
qed

subsection \<open>Other errors of the fetch\<close>

lemma Watch_single_lastRPCTime:
  "ctxDone p = None \<Longrightarrow> lastRPCTime (state (Watch w [p])) = rpcNow p"
  by (simp add: Watch.simps(2) Let_def split: sum.splits prod.splits)

text \<open>
  Claim C9. In a pass whose fetch fails with an error that is not a not-found status
  (\<^verbatim>\<open>status.FromError\<close> cannot classify it, or its code is another one), \<open>Watch\<close> returns
  that error at once and \<open>bytes\<close>, \<open>isDeleted\<close> and \<open>updateTime\<close> are as before. After
  every pass that attempts a fetch, whatever its outcome, \<open>lastRPCTime\<close> is the clock read
  after the fetch.
\<close>

theorem Watch_other_error:
  "(ctxDone p = None \<and> getVariable p (name w) = Inl err
      \<and> (\<not> snd (FromError err) \<or> fst (FromError err) \<noteq> NotFound) \<longrightarrow>
      returned (Watch w (p # ps)) = Some (Inl (RPCError err))
      \<and> state (Watch w (p # ps)) = w\<lparr>lastRPCTime := rpcNow p\<rparr>
      \<and> bytes (state (Watch w (p # ps))) = bytes w
      \<and> isDeleted (state (Watch w (p # ps))) = isDeleted w
      \<and> updateTime (state (Watch w (p # ps))) = updateTime w)
   \<and> (ctxDone q = None \<longrightarrow> lastRPCTime (state (Watch w [q])) = rpcNow q)"
proof (intro conjI impI)
  assume h: "ctxDone p = None \<and> getVariable p (name w) = Inl err
      \<and> (\<not> snd (FromError err) \<or> fst (FromError err) \<noteq> NotFound)"
  with Watch_other_rpc_error [of p w err ps]
  show "returned (Watch w (p # ps)) = Some (Inl (RPCError err))"
    and "state (Watch w (p # ps)) = w\<lparr>lastRPCTime := rpcNow p\<rparr>"
    and "bytes (state (Watch w (p # ps))) = bytes w"
    and "isDeleted (state (Watch w (p # ps))) = isDeleted w"
    and "updateTime (state (Watch w (p # ps))) = updateTime w"
    by simp_all
next
  assume "ctxDone q = None"
  then show "lastRPCTime (state (Watch w [q])) = rpcNow q"
    by (rule Watch_single_lastRPCTime)
qed

theorem Watch_other_error_witness:
  "returned (Watch ex_watcher [ex_poll (Inl (StatusError Unavailable ''down''))]) =
     Some (Inl (RPCError (StatusError Unavailable ''down'')))
   \<and> state (Watch ex_watcher [ex_poll (Inl (StatusError Unavailable ''down''))]) =
     ex_watcher\<lparr>lastRPCTime := 6\<rparr>
   \<and> returned (Watch ex_watcher [ex_poll (Inl (PlainError ''EOF''))]) =
     Some (Inl (RPCError (PlainError ''EOF'')))
   \<and> state (Watch ex_watcher [ex_poll (Inl (PlainError ''EOF''))]) = ex_watcher\<lparr>lastRPCTime := 6\<rparr>
   \<and> lastRPCTime (state (Watch ex_watcher
        [ex_poll (Inr (ex_var [1, 2] (Some \<lparr>Seconds = 1, Nanos = 0\<rparr>)))])) = 6"
proof -
  let ?down = "StatusError Unavailable ''down''"
  let ?eof = "PlainError ''EOF''"
  let ?good = "ex_var [1, 2] (Some \<lparr>Seconds = 1, Nanos = 0\<rparr>)"
  from Watch_other_error [of "ex_poll (Inl ?down)" ex_watcher ?down "[]"]
  have 1: "returned (Watch ex_watcher [ex_poll (Inl ?down)]) = Some (Inl (RPCError ?down))
      \<and> state (Watch ex_watcher [ex_poll (Inl ?down)]) = ex_watcher\<lparr>lastRPCTime := 6\<rparr>"
    by (simp add: ex_poll_sel)
  from Watch_other_error [of "ex_poll (Inl ?eof)" ex_watcher ?eof "[]"]
  have 2: "returned (Watch ex_watcher [ex_poll (Inl ?eof)]) = Some (Inl (RPCError ?eof))
      \<and> state (Watch ex_watcher [ex_poll (Inl ?eof)]) = ex_watcher\<lparr>lastRPCTime := 6\<rparr>"
    by (simp add: ex_poll_sel)
  from Watch_other_error [of _ ex_watcher _ _ "ex_poll (Inr ?good)"]
  have 3: "lastRPCTime (state (Watch ex_watcher [ex_poll (Inr ?good)])) = 6"
    by (simp add: ex_poll_sel)
  from 1 2 3 show ?thesis by simp
qed

subsection \<open>Construction and the first wait\<close>

lemma wrap64_id: "- (2 ^ 63) \<le> x \<Longrightarrow> x < 2 ^ 63 \<Longrightarrow> wrap64 x = x"
  by (simp add: wrap64_def)

lemma defaultWaitTimeout_eq: "defaultWaitTimeout = 600000000000"
  by (simp add: defaultWaitTimeout_def Minute_def)

lemma ex_NewVariable:
  "NewVariable 0 ex_decode \<lparr>ProjectID = ''p'', Config = ''c'', Variable = ''v''\<rparr> None = Inr ex_watcher"
  by (simp add: NewVariable_def ex_watcher_def defaultWaitTimeout_eq wrap64_def Add_def String_def)

text \<open>
  Claim C7. \<open>NewVariable\<close> with a negative \<open>WaitTime\<close> returns the error for a negative wait
  time, and so no watcher; with \<open>WaitTime\<close> zero, or with no options, it returns a watcher
  whose wait time is the default of 10 minutes. A positive \<open>WaitTime\<close> is kept.
\<close>

theorem NewVariable_WaitTime:
  "(WaitTime opts < 0 \<longrightarrow>
      NewVariable now JSONDecode rname (Some opts) = Inl (NegativeWaitTime (WaitTime opts)))
   \<and> (WaitTime opts = 0 \<longrightarrow>
      (\<exists>w. NewVariable now JSONDecode rname (Some opts) = Inr w
           \<and> waitTime w = 10 * Minute \<and> waitTime w = defaultWaitTimeout))
   \<and> (\<exists>w. NewVariable now JSONDecode rname None = Inr w
           \<and> waitTime w = 10 * Minute \<and> waitTime w = defaultWaitTimeout)
   \<and> (0 < WaitTime opts \<longrightarrow>
      (\<exists>w. NewVariable now JSONDecode rname (Some opts) = Inr w \<and> waitTime w = WaitTime opts))"
proof (intro conjI impI)
  assume "WaitTime opts < 0"
  then show "NewVariable now JSONDecode rname (Some opts) = Inl (NegativeWaitTime (WaitTime opts))"
    by (simp add: NewVariable_def)
next
  assume "WaitTime opts = 0"
  then show "\<exists>w. NewVariable now JSONDecode rname (Some opts) = Inr w
           \<and> waitTime w = 10 * Minute \<and> waitTime w = defaultWaitTimeout"
    by (simp add: NewVariable_def defaultWaitTimeout_eq Minute_def)
next
  show "\<exists>w. NewVariable now JSONDecode rname None = Inr w
           \<and> waitTime w = 10 * Minute \<and> waitTime w = defaultWaitTimeout"
    by (simp add: NewVariable_def defaultWaitTimeout_eq Minute_def)
next
  assume "0 < WaitTime opts"
  then show "\<exists>w. NewVariable now JSONDecode rname (Some opts) = Inr w \<and> waitTime w = WaitTime opts"
    by (simp add: NewVariable_def)
qed

theorem NewVariable_WaitTime_witness:
  "NewVariable 0 ex_decode \<lparr>ProjectID = ''p'', Config = ''c'', Variable = ''v''\<rparr>
       (Some \<lparr>WaitTime = - 1, Decode = None\<rparr>) = Inl (NegativeWaitTime (- 1))
   \<and> (\<exists>w. NewVariable 0 ex_decode \<lparr>ProjectID = ''p'', Config = ''c'', Variable = ''v''\<rparr>
       (Some \<lparr>WaitTime = 0, Decode = None\<rparr>) = Inr w \<and> waitTime w = 600000000000)
   \<and> (\<exists>w. NewVariable 0 ex_decode \<lparr>ProjectID = ''p'', Config = ''c'', Variable = ''v''\<rparr>
       None = Inr w \<and> waitTime w = 600000000000)"
proof -
  let ?n = "\<lparr>ProjectID = ''p'', Config = ''c'', Variable = ''v''\<rparr>"
  from NewVariable_WaitTime [of "\<lparr>WaitTime = - 1, Decode = None\<rparr>" 0 ex_decode ?n]
  have 1: "NewVariable 0 ex_decode ?n (Some \<lparr>WaitTime = - 1, Decode = None\<rparr>) =
      Inl (NegativeWaitTime (- 1))"
    by simp
  from NewVariable_WaitTime [of "\<lparr>WaitTime = 0, Decode = None\<rparr>" 0 ex_decode ?n]
  have 2: "\<exists>w. NewVariable 0 ex_decode ?n (Some \<lparr>WaitTime = 0, Decode = None\<rparr>) = Inr w
      \<and> waitTime w = 600000000000"
    and 3: "\<exists>w. NewVariable 0 ex_decode ?n None = Inr w \<and> waitTime w = 600000000000"
    by (auto simp: defaultWaitTimeout_eq)
  from 1 2 3 show ?thesis by simp
qed

lemma Watch_first_timer:
  "timers (Watch w (p # ps)) \<noteq> []
   \<and> hd (timers (Watch w (p # ps))) = wrap64 (waitTime w - Sub (timerNow p) (lastRPCTime w))"
  by (simp add: Watch.simps(2) Let_def split: option.splits sum.splits prod.splits)

lemma Watch_single_timer:
  "timers (Watch w [p]) = [wrap64 (waitTime w - Sub (timerNow p) (lastRPCTime w))]"
  by (simp add: Watch.simps(2) Let_def split: option.splits sum.splits prod.splits)

lemma first_delay:
  assumes "0 < wt" and "wt \<le> maxDuration" and "now \<le> tn"
  shows "wrap64 (wt - Sub tn (Add now (wrap64 (- 1 * wt)))) = max (now - tn) (wt - maxDuration)"
proof -
  from assms(1,2) have neg: "wrap64 (- wt) = - wt"
    by (simp add: wrap64_id maxDuration_def)
  let ?d = "tn - (now - wt)"
  from assms have pos: "wt \<le> ?d" by simp
  show ?thesis
  proof (cases "?d > maxDuration")
    case True
    then have "Sub tn (Add now (wrap64 (- 1 * wt))) = maxDuration"
      by (simp add: neg Add_def Sub_def Let_def)
    moreover from assms(1,2) have "wrap64 (wt - maxDuration) = wt - maxDuration"
      by (intro wrap64_id) (simp_all add: maxDuration_def)
    ultimately show ?thesis using True by simp
  next
    case False
    with pos assms(1) have "Sub tn (Add now (wrap64 (- 1 * wt))) = ?d"
      by (simp add: neg Add_def Sub_def Let_def minDuration_def)
    moreover from False pos assms have "wrap64 (wt - ?d) = wt - ?d"
      by (intro wrap64_id) (simp_all add: maxDuration_def)
    ultimately show ?thesis using False by simp
  qed
qed

lemma NewVariable_fresh:
  assumes "NewVariable now JSONDecode rname opts = Inr w"
  shows "0 < waitTime w" and "lastRPCTime w = Add now (wrap64 (- 1 * waitTime w))"
    and "bytes w = []" and "\<not> isDeleted w" and "name w = String rname"
  using assms
  by (auto simp: NewVariable_def Let_def defaultWaitTimeout_eq split: if_splits option.splits)

text \<open>
  Claim C8. The watcher that \<open>NewVariable\<close> builds at time \<open>now\<close> has \<open>lastRPCTime\<close> equal to
  \<open>now\<close> minus its (positive) wait time. So the timer that the first pass of \<open>Watch\<close> creates,
  at a clock reading \<open>timerNow p\<close> not before \<open>now\<close>, has the duration
  \<open>waitTime w - (timerNow p - lastRPCTime w)\<close> computed in \<^verbatim>\<open>int64\<close>, which is
  \<open>now - timerNow p\<close> (or \<open>waitTime w - maxDuration\<close> where the subtraction of the times
  saturates) and so not positive: the pass does not wait. When the timer's branch is taken,
  that pass makes the fetch, for the name of the resource: it sets \<open>lastRPCTime\<close> to the
  clock read after the fetch, returns any error of the fetch, and returns what the decoder
  gives for fetched bytes that are not empty. The wait time is an \<^verbatim>\<open>int64\<close>, at most
  \<open>maxDuration\<close>.
\<close>

theorem NewVariable_first_Watch:
  assumes "NewVariable now JSONDecode rname opts = Inr w" and "waitTime w \<le> maxDuration"
    and "now \<le> timerNow p"
  shows "lastRPCTime w = now - waitTime w \<and> 0 < waitTime w \<and> name w = String rname
         \<and> timers (Watch w [p]) = [wrap64 (waitTime w - Sub (timerNow p) (lastRPCTime w))]
         \<and> timers (Watch w (p # ps)) \<noteq> []
         \<and> hd (timers (Watch w (p # ps))) =
             wrap64 (waitTime w - Sub (timerNow p) (lastRPCTime w))
         \<and> wrap64 (waitTime w - Sub (timerNow p) (lastRPCTime w)) =
             max (now - timerNow p) (waitTime w - maxDuration)
         \<and> hd (timers (Watch w (p # ps))) \<le> 0
         \<and> (ctxDone p = None \<longrightarrow> lastRPCTime (state (Watch w [p])) = rpcNow p)
         \<and> (ctxDone p = None \<and> getVariable p (String rname) = Inl err \<longrightarrow>
              returned (Watch w (p # ps)) = Some (Inl (RPCError err)))
         \<and> (ctxDone p = None \<and> getVariable p (String rname) = Inr vpb
              \<and> parseUpdateTime vpb = Inr ut \<and> bytesFromProto vpb \<noteq> [] \<longrightarrow>
              returned (Watch w (p # ps)) =
                Some (case decoder w (bytesFromProto vpb) of
                        Inl e \<Rightarrow> Inl (DecodeError e)
                      | Inr val \<Rightarrow> Inr \<lparr>Value = val, UpdateTime = ut\<rparr>))"
proof -
  note fresh = NewVariable_fresh [OF assms(1)]
  from fresh(1) assms(2) have "wrap64 (- waitTime w) = - waitTime w"
    by (simp add: wrap64_id maxDuration_def)
  with fresh(2) have last: "lastRPCTime w = now - waitTime w" by (simp add: Add_def)
  have delay: "wrap64 (waitTime w - Sub (timerNow p) (lastRPCTime w)) =
      max (now - timerNow p) (waitTime w - maxDuration)"
    using first_delay [OF fresh(1) assms(2,3)] fresh(2) by simp
  from assms(2,3) have nonpos: "max (now - timerNow p) (waitTime w - maxDuration) \<le> 0"
    by simp
  have fetch: "lastRPCTime (state (Watch w [p])) = rpcNow p" if "ctxDone p = None"
    using that by (rule Watch_single_lastRPCTime)
  have err: "returned (Watch w (p # ps)) = Some (Inl (RPCError err))"
    if h: "ctxDone p = None \<and> getVariable p (String rname) = Inl err"
  proof (cases "FromError err = (NotFound, True)")
    case True
    with h fresh(4,5) Watch_first_not_found [of p w err ps] show ?thesis by simp
  next
    case False
    then have "\<not> snd (FromError err) \<or> fst (FromError err) \<noteq> NotFound"
      by (cases "FromError err") auto
    with h fresh(5) Watch_other_rpc_error [of p w err ps] show ?thesis by simp
  qed
  have val: "returned (Watch w (p # ps)) =
      Some (case decoder w (bytesFromProto vpb) of
              Inl e \<Rightarrow> Inl (DecodeError e)
            | Inr val \<Rightarrow> Inr \<lparr>Value = val, UpdateTime = ut\<rparr>)"
    if "ctxDone p = None \<and> getVariable p (String rname) = Inr vpb
        \<and> parseUpdateTime vpb = Inr ut \<and> bytesFromProto vpb \<noteq> []"
    using that fresh(3,5) Watch_change [of p w vpb ut ps] by simp
  from last fresh(1,5) delay nonpos Watch_single_timer [of w p] Watch_first_timer [of w p ps]
  have "lastRPCTime w = now - waitTime w \<and> 0 < waitTime w \<and> name w = String rname
         \<and> timers (Watch w [p]) = [wrap64 (waitTime w - Sub (timerNow p) (lastRPCTime w))]
         \<and> timers (Watch w (p # ps)) \<noteq> []
         \<and> hd (timers (Watch w (p # ps))) =
             wrap64 (waitTime w - Sub (timerNow p) (lastRPCTime w))
         \<and> wrap64 (waitTime w - Sub (timerNow p) (lastRPCTime w)) =
             max (now - timerNow p) (waitTime w - maxDuration)
         \<and> hd (timers (Watch w (p # ps))) \<le> 0"
    by simp
  with fetch err val show ?thesis by blast
qed

theorem NewVariable_first_Watch_witness:
  "NewVariable 0 ex_decode \<lparr>ProjectID = ''p'', Config = ''c'', Variable = ''v''\<rparr> None = Inr ex_watcher
   \<and> lastRPCTime ex_watcher = 0 - waitTime ex_watcher
   \<and> timerNow (ex_poll (Inl (PlainError ''EOF''))) = 5
   \<and> timers (Watch ex_watcher [ex_poll (Inl (PlainError ''EOF''))]) = [- 5]
   \<and> hd (timers (Watch ex_watcher [ex_poll (Inl (PlainError ''EOF''))])) \<le> 0
   \<and> lastRPCTime (state (Watch ex_watcher [ex_poll (Inl (PlainError ''EOF''))])) = 6
   \<and> returned (Watch ex_watcher [ex_poll (Inl (PlainError ''EOF''))]) =
       Some (Inl (RPCError (PlainError ''EOF'')))
   \<and> timers (Watch ex_watcher [ex_poll (Inr (ex_var [1, 2] (Some \<lparr>Seconds = 1, Nanos = 0\<rparr>)))]) = [- 5]
   \<and> returned (Watch ex_watcher [ex_poll (Inr (ex_var [1, 2] (Some \<lparr>Seconds = 1, Nanos = 0\<rparr>)))]) =
       Some (Inr \<lparr>Value = 2, UpdateTime = 1000000000\<rparr>)"
proof -
  let ?n = "\<lparr>ProjectID = ''p'', Config = ''c'', Variable = ''v''\<rparr>"
  let ?eof = "ex_poll (Inl (PlainError ''EOF''))"
  let ?good = "ex_var [1, 2] (Some \<lparr>Seconds = 1, Nanos = 0\<rparr>)"
  have pre: "waitTime ex_watcher \<le> maxDuration" "0 \<le> timerNow (ex_poll r)" for r
    by (simp_all add: ex_watcher_sel ex_poll_sel maxDuration_def)
  note eof = NewVariable_first_Watch [where p = ?eof and ps = "[]"
      and err = "PlainError ''EOF''", OF ex_NewVariable pre]
  note good = NewVariable_first_Watch [where p = "ex_poll (Inr ?good)" and ps = "[]"
      and vpb = ?good and ut = 1000000000, OF ex_NewVariable pre]
  from eof have 1: "lastRPCTime ex_watcher = 0 - waitTime ex_watcher
      \<and> timers (Watch ex_watcher [?eof]) = [- 5]
      \<and> hd (timers (Watch ex_watcher [?eof])) \<le> 0
      \<and> lastRPCTime (state (Watch ex_watcher [?eof])) = 6
      \<and> returned (Watch ex_watcher [?eof]) = Some (Inl (RPCError (PlainError ''EOF'')))"
    by (simp add: ex_poll_sel ex_watcher_sel maxDuration_def)
  from good have 2: "timers (Watch ex_watcher [ex_poll (Inr ?good)]) = [- 5]
      \<and> returned (Watch ex_watcher [ex_poll (Inr ?good)]) =
          Some (Inr \<lparr>Value = 2, UpdateTime = 1000000000\<rparr>)"
    by (simp add: ex_poll_sel ex_watcher_sel maxDuration_def ex_parse_ok ex_bytes ex_decode_def)
  from ex_NewVariable 1 2 show ?thesis by (simp add: ex_poll_sel)
qed

subsection \<open>The URL multiplexer\<close>

text \<open>
  Claim C10. For every URL, \<open>OpenMySQLURL\<close> returns an error, without a panic and without
  calling an opener, when the scheme of the URL is empty, when the receiver is nil, and when
  the map has no opener (no entry, or a nil one) for the scheme. It calls the opener
  registered for the scheme when there is one; a result other than its own two errors comes
  from such an opener.
\<close>

theorem OpenMySQLURL_dispatch:
  "(Scheme u = [] \<longrightarrow>
        OpenMySQLURL (mux :: ('ctx, 'db) URLMux option) ctx (Some u) = Return (Inl (NoScheme u)))
   \<and> (Scheme u \<noteq> [] \<longrightarrow> OpenMySQLURL None ctx (Some u) = Return (Inl (NoProvider u (Scheme u))))
   \<and> (Scheme u \<noteq> [] \<and> (schemes m (Scheme u) = None \<or> schemes m (Scheme u) = Some None) \<longrightarrow>
        OpenMySQLURL (Some m) ctx (Some u) = Return (Inl (NoProvider u (Scheme u))))
   \<and> (Scheme u \<noteq> [] \<and> schemes m (Scheme u) = Some (Some f) \<longrightarrow>
        OpenMySQLURL (Some m) ctx (Some u) = f ctx u)
   \<and> (OpenMySQLURL mux ctx (Some u) \<noteq> Return (Inl (NoScheme u))
        \<and> OpenMySQLURL mux ctx (Some u) \<noteq> Return (Inl (NoProvider u (Scheme u))) \<longrightarrow>
        (\<exists>m' f'. mux = Some m' \<and> Scheme u \<noteq> [] \<and> schemes m' (Scheme u) = Some (Some f')
            \<and> OpenMySQLURL mux ctx (Some u) = f' ctx u))"
proof (intro conjI impI)
  assume "Scheme u = []"
  then show "OpenMySQLURL mux ctx (Some u) = Return (Inl (NoScheme u))"
    by (simp add: OpenMySQLURL_def)
next
  assume "Scheme u \<noteq> []"
  then show "OpenMySQLURL None ctx (Some u) = Return (Inl (NoProvider u (Scheme u)))"
    by (simp add: OpenMySQLURL_def)
next
  assume "Scheme u \<noteq> [] \<and> (schemes m (Scheme u) = None \<or> schemes m (Scheme u) = Some None)"
  then show "OpenMySQLURL (Some m) ctx (Some u) = Return (Inl (NoProvider u (Scheme u)))"
    by (auto simp: OpenMySQLURL_def)
next
  assume "Scheme u \<noteq> [] \<and> schemes m (Scheme u) = Some (Some f)"
  then show "OpenMySQLURL (Some m) ctx (Some u) = f ctx u"
    by (simp add: OpenMySQLURL_def)
next
  assume "OpenMySQLURL mux ctx (Some u) \<noteq> Return (Inl (NoScheme u))
        \<and> OpenMySQLURL mux ctx (Some u) \<noteq> Return (Inl (NoProvider u (Scheme u)))"
  then show "\<exists>m' f'. mux = Some m' \<and> Scheme u \<noteq> [] \<and> schemes m' (Scheme u) = Some (Some f')
            \<and> OpenMySQLURL mux ctx (Some u) = f' ctx u"
    by (auto simp: OpenMySQLURL_def Let_def split: option.splits if_splits)
qed


theorem OpenMySQLURL_dispatch_witness:
  "OpenMySQLURL (Some ex_mux) () (Some (ex_url [])) = Return (Inl (NoScheme (ex_url [])))
   \<and> OpenMySQLURL None () (Some (ex_url ''mysql'')) =
       Return (Inl (NoProvider (ex_url ''mysql'') ''mysql'') :: mysql_error + string)
   \<and> OpenMySQLURL (Some ex_mux) () (Some (ex_url ''postgres'')) =
       Return (Inl (NoProvider (ex_url ''postgres'') ''postgres''))
   \<and> OpenMySQLURL (Some ex_mux) () (Some (ex_url ''nil'')) =
       Return (Inl (NoProvider (ex_url ''nil'') ''nil''))
   \<and> OpenMySQLURL (Some ex_mux) () (Some (ex_url ''mysql'')) = Return (Inr ''db.example.com/test'')
   \<and> (\<exists>m f. Some ex_mux = Some m \<and> schemes m ''mysql'' = Some (Some f)
         \<and> OpenMySQLURL (Some ex_mux) () (Some (ex_url ''mysql'')) = f () (ex_url ''mysql''))"
proof -
  have sch: "Scheme (ex_url s) = s" for s
    by (simp add: ex_url_def)
  have look: "schemes ex_mux ''postgres'' = None" "schemes ex_mux ''nil'' = Some None"
    "schemes ex_mux ''mysql'' = Some (Some ex_opener)"
    by (simp_all add: ex_mux_def)
  have opn: "ex_opener () (ex_url ''mysql'') = Return (Inr ''db.example.com/test'')"
    by (simp add: ex_opener_def ex_url_def)
  from OpenMySQLURL_dispatch [where u = "ex_url []" and mux = "Some ex_mux" and ctx = "()",
      THEN conjunct1]
  have 1: "OpenMySQLURL (Some ex_mux) () (Some (ex_url [])) = Return (Inl (NoScheme (ex_url [])))"
    by (simp add: sch)
  from OpenMySQLURL_dispatch [where u = "ex_url ''mysql''" and ctx = "()" and 'db = string,
      THEN conjunct2, THEN conjunct1]
  have 2: "OpenMySQLURL None () (Some (ex_url ''mysql'')) =
       Return (Inl (NoProvider (ex_url ''mysql'') ''mysql'') :: mysql_error + string)"
    by (simp add: sch)
  from OpenMySQLURL_dispatch [where u = "ex_url ''postgres''" and ctx = "()" and m = ex_mux,
      THEN conjunct2, THEN conjunct2, THEN conjunct1]
  have 3: "OpenMySQLURL (Some ex_mux) () (Some (ex_url ''postgres'')) =
       Return (Inl (NoProvider (ex_url ''postgres'') ''postgres''))"
    by (simp add: sch look)
  from OpenMySQLURL_dispatch [where u = "ex_url ''nil''" and ctx = "()" and m = ex_mux,
      THEN conjunct2, THEN conjunct2, THEN conjunct1]
  have 4: "OpenMySQLURL (Some ex_mux) () (Some (ex_url ''nil'')) =
       Return (Inl (NoProvider (ex_url ''nil'') ''nil''))"
    by (simp add: sch look)
  from OpenMySQLURL_dispatch [where u = "ex_url ''mysql''" and ctx = "()" and m = ex_mux
      and f = ex_opener, THEN conjunct2, THEN conjunct2, THEN conjunct2, THEN conjunct1]
  have 5: "OpenMySQLURL (Some ex_mux) () (Some (ex_url ''mysql'')) = Return (Inr ''db.example.com/test'')"
    by (simp add: sch look opn)
  from OpenMySQLURL_dispatch [where u = "ex_url ''mysql''" and ctx = "()" and mux = "Some ex_mux",
      THEN conjunct2, THEN conjunct2, THEN conjunct2, THEN conjunct2] 5
  have 6: "\<exists>m f. Some ex_mux = Some m \<and> schemes m ''mysql'' = Some (Some f)
         \<and> OpenMySQLURL (Some ex_mux) () (Some (ex_url ''mysql'')) = f () (ex_url ''mysql'')"
    by (simp add: sch)
  from 1 2 3 4 5 6 show ?thesis by simp
qed

end
